theory Spec2Isabelle
  imports Complex_Main
begin

section \<open>Values that cross the boundary of \<open>llava_visual.py\<close>\<close>

text \<open>
  \<open>LlavaVisionModel\<close> is glue around pretrained networks: the file system, the
  checkpoint readers, the image decoder, the preprocessor, the vision tower and the
  numeric kernels are collaborators it calls. They are parameters of the model
  (two records of functions, \<open>framework\<close> for inference and \<open>checkpoint_io\<close> for
  loading); everything the Python of the class does itself is a definition below.

  A collaborator that raises returns \<open>Inl\<close> with a description; the adapter never
  catches, so the exception leaves the method as \<open>External\<close>. The other constructors of
  \<open>error\<close> are the exceptions the adapter's own statements raise.
\<close>

datatype error =
    Exception string
  | AssertionError
  | IndexError
  | KeyError string
  | TypeError
  | AttributeError
  | ValueError
  | RuntimeError
  | External string

definition ext :: "string + 'x \<Rightarrow> error + 'x" where
  "ext r = (case r of Inl why \<Rightarrow> Inl (External why) | Inr x \<Rightarrow> Inr x)"

definition and_then :: "error + 'x \<Rightarrow> ('x \<Rightarrow> error + 'y) \<Rightarrow> error + 'y" where
  "and_then r f = (case r of Inl e \<Rightarrow> Inl e | Inr x \<Rightarrow> f x)"

text \<open>What \<open>json.load\<close> returns, and what a configuration attribute can hold.\<close>

datatype json =
    JNull
  | JBool bool
  | JInt int
  | JFloat real
  | JStr string
  | JArr "json list"
  | JObj "(string \<times> json) list"

text \<open>
  A torch tensor as far as the adapter looks at it: element type, device, sizes and the
  elements in row-major order. The elements are of an arbitrary type \<open>'a\<close>; rounding to
  half precision is the collaborator's \<open>to_half\<close>.
\<close>

datatype dtype = Float16 | BFloat16 | Float32 | Float64

datatype device = CPU | CUDA

record 'a tensor =
  dtype :: dtype
  dev :: device
  shape :: "nat list"
  elems :: "'a list"

text \<open>An \<open>nn.Module\<close> (the vision tower): which checkpoint it came from and where it lives.\<close>

record module =
  loaded_from :: string
  m_dtype :: dtype
  m_dev :: device
  requires_grad :: bool

text \<open>
  Modelled from the spec: \<open>ImageItem\<close> is declared in
  \<open>lightllm.server.multimodal_params\<close>, which is not among the sources; the
  specification gives it as an identifier (uuid) referencing image bytes in shared
  memory. An element of the list given to \<open>encode\<close> is such an item or any other
  Python object, of which the adapter only ever uses what \<open>format\<close> makes of its type
  and of the object itself: each a string, or the exception a \<open>__format__\<close>,
  \<open>__str__\<close> or \<open>__repr__\<close> of the object's own raises. \<open>read_shm\<close> and
  \<open>get_shm_name_data\<close> of \<open>lightllm.server.embed_cache.utils\<close> are parameters below.
\<close>

datatype item =
    is_ImageItem: ImageItem (uuid: int)
  | Other (type_format: "string + string") (str_format: "string + string")

text \<open>
  What \<open>format\<close> makes of an ordinary class: \<open><class 'NAME'>\<close>, with the qualified
  name. (A metaclass may print otherwise: an \<open>Enum\<close> class prints \<open><enum 'NAME'>\<close>.)
\<close>

definition class_format :: "string \<Rightarrow> string" where
  "class_format name = ''<class '' @ [CHR 0x27] @ name @ [CHR 0x27] @ ''>''"

type_synonym bytes = string

record ('a, 'img, 'proc) framework =
  get_shm_name_data :: "int \<Rightarrow> string"
  read_shm :: "string \<Rightarrow> string + bytes"
  Image_open_RGB :: "bytes \<Rightarrow> string + 'img"
  preprocess :: "'proc \<Rightarrow> 'img \<Rightarrow> string + 'a tensor"
  cuda_available :: bool
  to_half :: "'a \<Rightarrow> 'a"
  tower_forward :: "module \<Rightarrow> 'a tensor \<Rightarrow> string + 'a tensor list"
  torch_cat :: "'a tensor list \<Rightarrow> string + 'a tensor"
  F_linear :: "'a tensor \<Rightarrow> 'a tensor \<Rightarrow> 'a tensor \<Rightarrow> string + 'a tensor"
  F_gelu :: "'a tensor \<Rightarrow> string + 'a tensor"

text \<open>The attributes \<open>load_model\<close> sets on \<open>self\<close>.\<close>

record ('a, 'proc) adapter =
  select_layer :: json
  select_feature :: json
  image_processor :: 'proc
  vision_tower :: module
  projector_weights :: "(string \<times> 'a tensor) list"
  device :: "device option"

text \<open>
  \<open>projector_weights\<close> is a Python dict: its items in insertion order, every key
  once. \<open>d[k] = v\<close> replaces the value of a key that is there and appends a new key.
\<close>

fun dict_set :: "'k \<Rightarrow> 'v \<Rightarrow> ('k \<times> 'v) list \<Rightarrow> ('k \<times> 'v) list" where
  "dict_set k v [] = [(k, v)]"
| "dict_set k v ((k', v') # d) = (if k' = k then (k, v) # d else (k', v') # dict_set k v d)"

section \<open>Tensor operations the adapter applies\<close>

text \<open>\<open>t.half()\<close>: the tensor itself when it is half precision already.\<close>

definition half :: "('a, 'img, 'proc) framework \<Rightarrow> 'a tensor \<Rightarrow> 'a tensor" where
  "half env t =
     (if dtype t = Float16 then t
      else t\<lparr>dtype := Float16, elems := map (to_half env) (elems t)\<rparr>)"

text \<open>\<open>t.cuda()\<close>: raises where there is no accelerator.\<close>

definition tensor_cuda :: "('a, 'img, 'proc) framework \<Rightarrow> 'a tensor \<Rightarrow> error + 'a tensor" where
  "tensor_cuda env t = (if cuda_available env then Inr (t\<lparr>dev := CUDA\<rparr>) else Inl RuntimeError)"

text \<open>
  \<open>xs[i]\<close> on a tuple with a configuration value as index: an integer (or a bool,
  which Python reads as 0 or 1) counts from the end when negative; anything else is
  a \<open>TypeError\<close>.
\<close>

definition tuple_at :: "'x list \<Rightarrow> int \<Rightarrow> error + 'x" where
  "tuple_at xs i =
     (if 0 \<le> i \<and> i < int (length xs) then Inr (xs ! nat i)
      else if i < 0 \<and> - int (length xs) \<le> i then Inr (xs ! nat (int (length xs) + i))
      else Inl IndexError)"

definition py_index :: "'x list \<Rightarrow> json \<Rightarrow> error + 'x" where
  "py_index xs idx =
     (case idx of
        JInt i \<Rightarrow> tuple_at xs i
      | JBool b \<Rightarrow> tuple_at xs (if b then 1 else 0)
      | _ \<Rightarrow> Inl TypeError)"

text \<open>
  \<open>x[:, 1:].contiguous()\<close>: along the second dimension everything from index 1 on.
  Of every block of \<open>d1\<close> sub-tensors (each of \<open>prod_list rest\<close> elements) the first
  sub-tensor goes. A tensor of fewer than two dimensions cannot be indexed so.
\<close>

definition slice_from_1 :: "'a tensor \<Rightarrow> error + 'a tensor" where
  "slice_from_1 x =
     (case shape x of
        d0 # d1 # rest \<Rightarrow>
          Inr (x\<lparr>shape := d0 # (d1 - 1) # rest,
                 elems := concat (map (\<lambda>b. take ((d1 - 1) * prod_list rest)
                                            (drop (b * d1 * prod_list rest + prod_list rest) (elems x)))
                                   [0..<d0])\<rparr>)
      | _ \<Rightarrow> Inl IndexError)"

text \<open>
  \<open>x.view(*dims)\<close> with at most one \<open>-1\<close>: the elements stay, the sizes change. The
  size written \<open>-1\<close> is inferred, which torch refuses when the other sizes multiply to 0
  or do not divide the number of elements. A tensor here is its elements in row-major
  order, that is, contiguous; torch also refuses to view a tensor whose strides do not
  fit the new sizes, which can only happen to a hidden state the tower returns
  non-contiguous and line 108 does not copy. That refusal is not in this model: where
  the model's \<open>view\<close> raises the code raises, and not always the other way round.
\<close>

definition view :: "int list \<Rightarrow> 'a tensor \<Rightarrow> error + 'a tensor" where
  "view dims x =
     (let n = prod_list (shape x);
          known = prod_list (map nat (filter (\<lambda>d. d \<noteq> - 1) dims))
      in if list_ex (\<lambda>d. d < - 1) dims \<or> 1 < length (filter (\<lambda>d. d = - 1) dims)
         then Inl RuntimeError
         else if list_ex (\<lambda>d. d = - 1) dims
         then (if known = 0 \<or> n mod known \<noteq> 0 then Inl RuntimeError
               else Inr (x\<lparr>shape := map (\<lambda>d. if d = - 1 then n div known else nat d) dims\<rparr>))
         else if known = n then Inr (x\<lparr>shape := map nat dims\<rparr>)
         else Inl RuntimeError)"

definition weight :: "('a, 'proc) adapter \<Rightarrow> string \<Rightarrow> error + 'a tensor" where
  "weight st k = (case map_of (projector_weights st) k of None \<Rightarrow> Inl (KeyError k) | Some t \<Rightarrow> Inr t)"

section \<open>\<open>forward\<close>\<close>

text \<open>
  Lines 109 to 125, the projector: the sizes are unpacked (three of them, or
  \<open>ValueError\<close>), batch and sequence are flattened, the two linear layers with the GELU
  between them run in the framework, and the result is viewed as
  \<open>(B, L, -1)\<close>.
\<close>

definition mm_project ::
  "('a, 'img, 'proc) framework \<Rightarrow> ('a, 'proc) adapter \<Rightarrow> 'a tensor \<Rightarrow> error + 'a tensor" where
  "mm_project env st x =
     (case shape x of
        [B, L, N] \<Rightarrow>
          and_then (view [- 1, int N] x) (\<lambda>x.
          and_then (weight st ''model.mm_projector.0.weight'') (\<lambda>w0.
          and_then (weight st ''model.mm_projector.0.bias'') (\<lambda>b0.
          and_then (ext (F_linear env (half env x) w0 b0)) (\<lambda>x.
          and_then (ext (F_gelu env x)) (\<lambda>x.
          and_then (weight st ''model.mm_projector.2.weight'') (\<lambda>w2.
          and_then (weight st ''model.mm_projector.2.bias'') (\<lambda>b2.
          and_then (ext (F_linear env x w2 b2)) (\<lambda>x.
          view [int B, int L, - 1] x))))))))
      | _ \<Rightarrow> Inl ValueError)"

text \<open>Lines 107 and 108: the feature selection.\<close>

definition select_tokens :: "('a, 'proc) adapter \<Rightarrow> 'a tensor \<Rightarrow> error + 'a tensor" where
  "select_tokens st x =
     (if select_feature st = JStr ''patch'' \<or> select_feature st = JStr ''default''
      then slice_from_1 x
      else Inr x)"

definition forward ::
  "('a, 'img, 'proc) framework \<Rightarrow> ('a, 'proc) adapter \<Rightarrow> 'a tensor \<Rightarrow> error + 'a tensor" where
  "forward env st x =
     and_then (tensor_cuda env (half env x)) (\<lambda>x.
     and_then (ext (tower_forward env (vision_tower st) x)) (\<lambda>hidden_states.
     and_then (py_index hidden_states (select_layer st)) (\<lambda>x.
     and_then (select_tokens st x) (\<lambda>x.
     mm_project env st x))))"

section \<open>\<open>encode\<close>\<close>

text \<open>
  The message of line 141, from the formatted type and the formatted item.
\<close>

definition unsupport_message :: "string \<Rightarrow> string \<Rightarrow> string" where
  "unsupport_message ty v = ''Unsupport input types: '' @ ty @ '' for '' @ v"

text \<open>
  Lines 136 to 138 for one uuid: the bytes from shared memory, decoded as an RGB image,
  through the configured preprocessor; \<open>["pixel_values"]\<close> of its result.
\<close>

definition pixel_values ::
  "('a, 'img, 'proc) framework \<Rightarrow> ('a, 'proc) adapter \<Rightarrow> int \<Rightarrow> error + 'a tensor" where
  "pixel_values env st u =
     and_then (ext (read_shm env (get_shm_name_data env u))) (\<lambda>image_data.
     and_then (ext (Image_open_RGB env image_data)) (\<lambda>image_data.
     ext (preprocess env (image_processor st) image_data)))"

text \<open>
  The loop of lines 133 to 145, with its four variables \<open>img_tensors\<close>, \<open>uuids\<close>,
  \<open>valid_id\<close> and \<open>valid_ids\<close>. \<open>img_tensors[-1].shape[0]\<close> is an \<open>IndexError\<close> on
  a tensor without dimensions. In line 141 \<open>str.format\<close> formats the type first and
  the item second; what either raises leaves \<open>encode\<close> in place of the \<open>Exception\<close>.
\<close>

fun encode_items ::
  "('a, 'img, 'proc) framework \<Rightarrow> ('a, 'proc) adapter \<Rightarrow> item list
     \<Rightarrow> 'a tensor list \<times> int list \<times> nat \<times> nat list list
     \<Rightarrow> error + ('a tensor list \<times> int list \<times> nat \<times> nat list list)" where
  "encode_items env st [] acc = Inr acc"
| "encode_items env st (img # images) (img_tensors, uuids, valid_id, valid_ids) =
     (case img of
        ImageItem u \<Rightarrow>
          and_then (pixel_values env st u) (\<lambda>t.
          (case shape t of
             [] \<Rightarrow> Inl IndexError
           | cur_num # _ \<Rightarrow>
               encode_items env st images
                 (img_tensors @ [t], uuids @ [u], valid_id + cur_num,
                  valid_ids @ [[valid_id, valid_id + cur_num]])))
      | Other type_img str_img \<Rightarrow>
          and_then (ext type_img) (\<lambda>ty.
          and_then (ext str_img) (\<lambda>v.
          Inl (Exception (unsupport_message ty v)))))"

definition encode ::
  "('a, 'img, 'proc) framework \<Rightarrow> ('a, 'proc) adapter \<Rightarrow> item list
     \<Rightarrow> error + ('a tensor \<times> int list \<times> nat list list) option" where
  "encode env st images =
     and_then (encode_items env st images ([], [], 0, [])) (\<lambda>(img_tensors, uuids, valid_id, valid_ids).
       if length img_tensors \<le> 0 then Inr None
       else and_then (ext (torch_cat env img_tensors)) (\<lambda>img.
            and_then (forward env st img) (\<lambda>all_img_embeds.
            Inr (Some (all_img_embeds, uuids, valid_ids)))))"

text \<open>
  The ranges as the specification words them: consecutive half-open intervals, the
  first starting at \<open>start\<close>, one per count.
\<close>

fun spec_ranges :: "nat \<Rightarrow> nat list \<Rightarrow> nat list list" where
  "spec_ranges start [] = []"
| "spec_ranges start (c # cs) = [start, start + c] # spec_ranges (start + c) cs"

section \<open>\<open>cuda\<close>\<close>

text \<open>\<open>module.cuda()\<close> and the loop of lines 98 and 99 over the items of the dict.\<close>

definition module_cuda :: "('a, 'img, 'proc) framework \<Rightarrow> module \<Rightarrow> error + module" where
  "module_cuda env m = (if cuda_available env then Inr (m\<lparr>m_dev := CUDA\<rparr>) else Inl RuntimeError)"

fun cuda_items ::
  "('a, 'img, 'proc) framework \<Rightarrow> (string \<times> 'a tensor) list \<Rightarrow> (string \<times> 'a tensor) list
     \<Rightarrow> error + (string \<times> 'a tensor) list" where
  "cuda_items env [] d = Inr d"
| "cuda_items env ((k, v) # items) d =
     and_then (tensor_cuda env v) (\<lambda>v'. cuda_items env items (dict_set k v' d))"

definition cuda ::
  "('a, 'img, 'proc) framework \<Rightarrow> ('a, 'proc) adapter \<Rightarrow> error + ('a, 'proc) adapter" where
  "cuda env st =
     and_then (module_cuda env (vision_tower st)) (\<lambda>tower.
     and_then (cuda_items env (projector_weights st) (projector_weights st)) (\<lambda>weights.
     Inr (st\<lparr>vision_tower := tower, projector_weights := weights\<rparr>)))"

section \<open>Loading\<close>

text \<open>Python's \<open>str.endswith\<close>, \<open>str.startswith\<close>, \<open>sub in s\<close> and \<open>str.replace\<close>.\<close>

definition endswith :: "string \<Rightarrow> string \<Rightarrow> bool" where
  "endswith s suffix = (length suffix \<le> length s \<and> drop (length s - length suffix) s = suffix)"

definition startswith :: "string \<Rightarrow> string \<Rightarrow> bool" where
  "startswith s prefix = (take (length prefix) s = prefix)"

fun str_contains :: "string \<Rightarrow> string \<Rightarrow> bool" where
  "str_contains sub [] = (sub = [])"
| "str_contains sub (c # cs) = (startswith (c # cs) sub \<or> str_contains sub cs)"

function replace :: "string \<Rightarrow> string \<Rightarrow> string \<Rightarrow> string" where
  "replace old new s =
     (if old = [] then new @ concat (map (\<lambda>c. c # new) s)
      else if s = [] then []
      else if startswith s old then new @ replace old new (drop (length old) s)
      else hd s # replace old new (tl s))"
  by pat_completeness auto
termination
  by (relation "measure (\<lambda>(old, new, s). length s)") auto

declare replace.simps [simp del]

text \<open>\<open>os.path.join\<close> of two POSIX paths.\<close>

definition path_join :: "string \<Rightarrow> string \<Rightarrow> string" where
  "path_join a b =
     (if startswith b ''/'' then b
      else if a = [] \<or> endswith a ''/'' then a @ b
      else a @ ''/'' @ b)"

text \<open>
  \<open>key in config\<close> and \<open>config.get(key, default)\<close> on what \<open>json.load\<close> returned: a
  dict is asked for its keys, a string for a substring, a list for an element, and
  nothing else is a container; only a dict has \<open>get\<close>.
\<close>

definition py_contains :: "string \<Rightarrow> json \<Rightarrow> error + bool" where
  "py_contains k config =
     (case config of
        JObj kvs \<Rightarrow> Inr (k \<in> set (map fst kvs))
      | JArr xs \<Rightarrow> Inr (JStr k \<in> set xs)
      | JStr s \<Rightarrow> Inr (str_contains k s)
      | _ \<Rightarrow> Inl TypeError)"

definition py_get :: "json \<Rightarrow> string \<Rightarrow> json \<Rightarrow> error + json" where
  "py_get config k dflt =
     (case config of
        JObj kvs \<Rightarrow> Inr (case map_of kvs k of None \<Rightarrow> dflt | Some v \<Rightarrow> v)
      | _ \<Rightarrow> Inl AttributeError)"

text \<open>
  The collaborators of loading. \<open>safe_open\<close> and \<open>torch_load\<close> give the tensors of a
  checkpoint file under their keys, in the file's order; \<open>AutoConfig\<close> gives
  \<open>vision_feature_layer\<close> and \<open>vision_feature_select_strategy\<close>; \<open>AutoProcessor\<close> the
  processor's \<open>image_processor\<close>; \<open>LlavaForConditionalGeneration\<close> the \<open>vision_tower\<close> of
  the model loaded in the given precision.
\<close>

record ('a, 'proc) checkpoint_io =
  json_load :: "string \<Rightarrow> string + json"
  listdir :: "string \<Rightarrow> string + string list"
  safe_open :: "string \<Rightarrow> string + (string \<times> 'a tensor) list"
  torch_load :: "string \<Rightarrow> string + (string \<times> 'a tensor) list"
  AutoConfig :: "string \<Rightarrow> string + json \<times> json"
  AutoProcessor :: "string \<Rightarrow> string + 'proc"
  LlavaForConditionalGeneration :: "string \<Rightarrow> dtype \<Rightarrow> string + module"
  CLIPImageProcessor :: "string \<Rightarrow> string + 'proc"
  CLIPVisionModel :: "string \<Rightarrow> string + module"

text \<open>
  Loading is observed by what it opens: every call of a collaborator is written to a
  trace, also the call that raises.
\<close>

datatype event =
    Call_json_load string
  | Call_listdir string
  | Call_AutoConfig string
  | Call_AutoProcessor string
  | Call_LlavaForConditionalGeneration string
  | Call_safe_open string
  | Call_CLIPImageProcessor string
  | Call_CLIPVisionModel string
  | Call_torch_load string

fun is_hf_call :: "event \<Rightarrow> bool" where
  "is_hf_call (Call_AutoConfig p) = True"
| "is_hf_call (Call_AutoProcessor p) = True"
| "is_hf_call (Call_LlavaForConditionalGeneration p) = True"
| "is_hf_call (Call_safe_open p) = True"
| "is_hf_call ev = False"

fun is_bin_call :: "event \<Rightarrow> bool" where
  "is_bin_call (Call_CLIPImageProcessor p) = True"
| "is_bin_call (Call_CLIPVisionModel p) = True"
| "is_bin_call (Call_torch_load p) = True"
| "is_bin_call ev = False"

type_synonym 'x io = "event list \<times> (error + 'x)"

definition io_ret :: "'x \<Rightarrow> 'x io" where
  "io_ret x = ([], Inr x)"

definition io_raise :: "error \<Rightarrow> 'x io" where
  "io_raise e = ([], Inl e)"

definition io_lift :: "error + 'x \<Rightarrow> 'x io" where
  "io_lift r = ([], r)"

definition io_call :: "event \<Rightarrow> string + 'x \<Rightarrow> 'x io" where
  "io_call ev r = ([ev], ext r)"

definition io_bind :: "'x io \<Rightarrow> ('x \<Rightarrow> 'y io) \<Rightarrow> 'y io" where
  "io_bind m f =
     (case m of
        (tr, Inl e) \<Rightarrow> (tr, Inl e)
      | (tr, Inr x) \<Rightarrow> (case f x of (tr', r) \<Rightarrow> (tr @ tr', r)))"

text \<open>
  Lines 60 to 68: the keys of one safetensors file. The two tests are two \<open>if\<close>s, not
  an \<open>if\<close> and an \<open>elif\<close>.
\<close>

fun hf_keys ::
  "('a, 'img, 'proc) framework \<Rightarrow> (string \<times> 'a tensor) list \<Rightarrow> (string \<times> 'a tensor) list
     \<Rightarrow> (string \<times> 'a tensor) list" where
  "hf_keys env [] weights = weights"
| "hf_keys env ((k, t) # d) weights =
     (let w1 = (if str_contains ''multi_modal_projector.linear_1'' k
                then dict_set (replace ''multi_modal_projector.linear_1'' ''model.mm_projector.0'' k)
                       (half env t) weights
                else weights);
          w2 = (if str_contains ''multi_modal_projector.linear_2'' k
                then dict_set (replace ''multi_modal_projector.linear_2'' ''model.mm_projector.2'' k)
                       (half env t) w1
                else w1)
      in hf_keys env d w2)"

text \<open>Lines 57 to 68: the files of the directory.\<close>

fun hf_files ::
  "('a, 'proc) checkpoint_io \<Rightarrow> ('a, 'img, 'proc) framework \<Rightarrow> string \<Rightarrow> string list
     \<Rightarrow> (string \<times> 'a tensor) list \<Rightarrow> (string \<times> 'a tensor) list io" where
  "hf_files io env weight_dir [] weights = io_ret weights"
| "hf_files io env weight_dir (f # fs) weights =
     (if endswith f ''.safetensors''
      then io_bind (io_call (Call_safe_open (path_join weight_dir f))
                      (safe_open io (path_join weight_dir f)))
             (\<lambda>d. hf_files io env weight_dir fs (hf_keys env d weights))
      else hf_files io env weight_dir fs weights)"

text \<open>
  \<open>load_hf_model\<close>. Setting the model's projector and language model to \<open>None\<close> frees
  memory and leaves no trace in the adapter.
\<close>

definition load_hf_model ::
  "('a, 'proc) checkpoint_io \<Rightarrow> ('a, 'img, 'proc) framework \<Rightarrow> json \<Rightarrow> string
     \<Rightarrow> ('a, 'proc) adapter io" where
  "load_hf_model io env config weight_dir =
     io_bind (io_call (Call_AutoConfig weight_dir) (AutoConfig io weight_dir)) (\<lambda>(layer, strategy).
     io_bind (io_call (Call_AutoProcessor weight_dir) (AutoProcessor io weight_dir)) (\<lambda>processor.
     io_bind (io_call (Call_LlavaForConditionalGeneration weight_dir)
                (LlavaForConditionalGeneration io weight_dir Float16)) (\<lambda>tower.
     io_bind (io_call (Call_listdir weight_dir) (listdir io weight_dir)) (\<lambda>files.
     io_bind (hf_files io env weight_dir files []) (\<lambda>weights.
     io_ret \<lparr>select_layer = layer, select_feature = strategy, image_processor = processor,
             vision_tower = tower, projector_weights = weights, device = None\<rparr>)))))"

text \<open>Lines 92 to 94 and 89 to 94.\<close>

fun bin_items ::
  "('a, 'img, 'proc) framework \<Rightarrow> (string \<times> 'a tensor) list \<Rightarrow> (string \<times> 'a tensor) list
     \<Rightarrow> (string \<times> 'a tensor) list" where
  "bin_items env [] weights = weights"
| "bin_items env ((k, v) # d) weights =
     bin_items env d
       (if str_contains ''model.mm_projector'' k then dict_set k (half env v) weights else weights)"

fun bin_files ::
  "('a, 'proc) checkpoint_io \<Rightarrow> ('a, 'img, 'proc) framework \<Rightarrow> string \<Rightarrow> string list
     \<Rightarrow> (string \<times> 'a tensor) list \<Rightarrow> (string \<times> 'a tensor) list io" where
  "bin_files io env weight_dir [] weights = io_ret weights"
| "bin_files io env weight_dir (f # fs) weights =
     (if endswith f ''.bin''
      then io_bind (io_call (Call_torch_load (path_join weight_dir f))
                      (torch_load io (path_join weight_dir f)))
             (\<lambda>d. bin_files io env weight_dir fs (bin_items env d weights))
      else bin_files io env weight_dir fs weights)"

text \<open>
  \<open>load_bin_model\<close>. The tower's path is the first element when the configuration
  gives a list (\<open>IndexError\<close> when it is empty), and must then be a string
  (\<open>AttributeError\<close> on \<open>startswith\<close> otherwise).
\<close>

definition load_bin_model ::
  "('a, 'proc) checkpoint_io \<Rightarrow> ('a, 'img, 'proc) framework \<Rightarrow> json \<Rightarrow> string
     \<Rightarrow> ('a, 'proc) adapter io" where
  "load_bin_model io env config weight_dir =
     io_bind (io_lift (py_get config ''mm_vision_select_layer'' (JInt (- 2)))) (\<lambda>layer.
     io_bind (io_lift (py_get config ''mm_vision_select_feature'' (JStr ''patch''))) (\<lambda>feature.
     io_bind (io_lift (py_get config ''mm_vision_tower'' (JStr ''openai/clip-vit-large-patch14-336'')))
       (\<lambda>vision_path.
     io_bind (io_lift (case vision_path of
                         JArr [] \<Rightarrow> Inl IndexError
                       | JArr (p # ps) \<Rightarrow> Inr p
                       | p \<Rightarrow> Inr p)) (\<lambda>vision_path.
     io_bind (io_lift (case vision_path of
                         JStr p \<Rightarrow> Inr (if startswith p ''./'' then path_join weight_dir p else p)
                       | _ \<Rightarrow> Inl AttributeError)) (\<lambda>vision_path.
     io_bind (io_call (Call_CLIPImageProcessor vision_path) (CLIPImageProcessor io vision_path))
       (\<lambda>processor.
     io_bind (io_call (Call_CLIPVisionModel vision_path) (CLIPVisionModel io vision_path)) (\<lambda>tower.
     io_bind (io_call (Call_listdir weight_dir) (listdir io weight_dir)) (\<lambda>files.
     io_bind (bin_files io env weight_dir files []) (\<lambda>weights.
     io_ret \<lparr>select_layer = layer, select_feature = feature, image_processor = processor,
             vision_tower = tower\<lparr>m_dtype := Float16\<rparr>, projector_weights = weights,
             device = None\<rparr>)))))))))"

text \<open>
  Lines 31 to 37: the end of \<open>load_model\<close>, with its four assertions in their order
  (as the interpreter runs them when it is not told to drop \<open>assert\<close> statements).
\<close>

definition finish_load :: "('a, 'proc) adapter \<Rightarrow> ('a, 'proc) adapter io" where
  "finish_load st =
     (let st = st\<lparr>vision_tower := (vision_tower st)\<lparr>requires_grad := False\<rparr>, device := Some CPU\<rparr>;
          keys = map fst (projector_weights st)
      in if ''model.mm_projector.0.weight'' \<notin> set keys then io_raise AssertionError
         else if ''model.mm_projector.0.bias'' \<notin> set keys then io_raise AssertionError
         else if ''model.mm_projector.2.weight'' \<notin> set keys then io_raise AssertionError
         else if ''model.mm_projector.2.bias'' \<notin> set keys then io_raise AssertionError
         else io_ret st)"

definition load_model ::
  "('a, 'proc) checkpoint_io \<Rightarrow> ('a, 'img, 'proc) framework \<Rightarrow> string \<Rightarrow> ('a, 'proc) adapter io" where
  "load_model io env weight_dir =
     io_bind (io_call (Call_json_load (path_join weight_dir ''config.json''))
                (json_load io (path_join weight_dir ''config.json''))) (\<lambda>config.
     io_bind (io_lift (py_contains ''text_config'' config)) (\<lambda>hf.
     io_bind (if hf then load_hf_model io env config weight_dir
              else load_bin_model io env config weight_dir)
       finish_load))"

text \<open>The four keys the assertions of \<open>load_model\<close> ask for, in their order.\<close>

definition canonical_keys :: "string list" where
  "canonical_keys =
     [''model.mm_projector.0.weight'', ''model.mm_projector.0.bias'',
      ''model.mm_projector.2.weight'', ''model.mm_projector.2.bias'']"

text \<open>
  \<open>x[b, l]\<close> of a three-dimensional tensor: the \<open>l\<close>-th token of the \<open>b\<close>-th image,
  read off the row-major elements.
\<close>

definition token_at :: "'a tensor \<Rightarrow> nat \<Rightarrow> nat \<Rightarrow> 'a list" where
  "token_at t b l =
     (case shape t of
        [B, L, N] \<Rightarrow> take N (drop ((b * L + l) * N) (elems t))
      | _ \<Rightarrow> [])"

section \<open>A small concrete setting\<close>

text \<open>
  Two images are in shared memory, under the uuids 7 and 9; the preprocessor cuts the
  first into one tile and the second into two. The tower returns three hidden states of
  two tokens of one feature each, numbered so that layer and token can be read off the
  elements. The linear layer of this setting repeats the feature as often as the weight
  has rows; the second projector weight has two rows.
\<close>

definition demo_hidden :: "nat \<Rightarrow> nat \<Rightarrow> nat tensor" where
  "demo_hidden B k =
     \<lparr>dtype = Float16, dev = CUDA, shape = [B, 2, 1],
      elems = map (\<lambda>j. 100 * k + j) [0..<B * 2]\<rparr>"

definition demo_env :: "(nat, nat, string) framework" where
  "demo_env =
     \<lparr>get_shm_name_data = (\<lambda>u. if u = 7 then ''7_data'' else if u = 9 then ''9_data'' else ''gone''),
      read_shm = (\<lambda>name. if name = ''7_data'' then Inr ''A''
                         else if name = ''9_data'' then Inr ''BB''
                         else Inl ''FileNotFoundError''),
      Image_open_RGB = (\<lambda>b. Inr (length b)),
      preprocess = (\<lambda>proc n. Inr \<lparr>dtype = Float32, dev = CPU, shape = [n, 1, 1, 1],
                                      elems = replicate n 1\<rparr>),
      cuda_available = True,
      to_half = (\<lambda>a. a),
      tower_forward = (\<lambda>m x. Inr (map (demo_hidden (hd (shape x))) [0..<3])),
      torch_cat = (\<lambda>ts. Inr \<lparr>dtype = Float32, dev = CPU,
                               shape = sum_list (map (\<lambda>t. hd (shape t)) ts) # [1, 1, 1],
                               elems = concat (map elems ts)\<rparr>),
      F_linear = (\<lambda>x w b. Inr (x\<lparr>shape := [hd (shape x), hd (shape w)],
                                  elems := concat (map (replicate (hd (shape w))) (elems x))\<rparr>)),
      F_gelu = (\<lambda>x. Inr x)\<rparr>"

definition demo_weight :: "nat tensor" where
  "demo_weight = \<lparr>dtype = Float16, dev = CUDA, shape = [1, 1], elems = [1]\<rparr>"

definition demo_weight_2 :: "nat tensor" where
  "demo_weight_2 = \<lparr>dtype = Float16, dev = CUDA, shape = [2, 1], elems = [1, 1]\<rparr>"

definition demo_adapter :: "(nat, string) adapter" where
  "demo_adapter =
     \<lparr>select_layer = JInt (- 2),
      select_feature = JStr ''patch'',
      image_processor = ''clip'',
      vision_tower = \<lparr>loaded_from = ''openai/clip-vit-large-patch14-336'', m_dtype = Float16,
                        m_dev = CUDA, requires_grad = False\<rparr>,
      projector_weights =
        [(''model.mm_projector.0.weight'', demo_weight),
         (''model.mm_projector.0.bias'', demo_weight),
         (''model.mm_projector.2.weight'', demo_weight_2),
         (''model.mm_projector.2.bias'', demo_weight)],
      device = Some CPU\<rparr>"


definition demo_batch :: "nat tensor" where
  "demo_batch = \<lparr>dtype = Float32, dev = CPU, shape = [3, 1, 1, 1], elems = [1, 1, 1]\<rparr>"

text \<open>
  Three weight directories: \<open>hf\<close> holds a packaged checkpoint, \<open>bin\<close> a loose one, and
  \<open>cut\<close> a loose one whose projector file lacks the bias of the second layer.
\<close>

definition demo_stored :: "nat tensor" where
  "demo_stored = \<lparr>dtype = Float32, dev = CPU, shape = [1, 1], elems = [1]\<rparr>"

definition demo_io :: "(nat, string) checkpoint_io" where
  "demo_io =
     \<lparr>json_load = (\<lambda>p. if p = ''hf/config.json''
                        then Inr (JObj [(''model_type'', JStr ''llava''), (''text_config'', JObj [])])
                        else if p = ''bin/config.json''
                        then Inr (JObj [(''mm_vision_tower'', JStr ''./clip'')])
                        else if p = ''cut/config.json'' then Inr (JObj [])
                        else Inl ''FileNotFoundError''),
      listdir = (\<lambda>p. if p = ''hf'' then Inr [''config.json'', ''model.safetensors'']
                      else if p = ''bin'' \<or> p = ''cut'' then Inr [''config.json'', ''mm_projector.bin'']
                      else Inl ''FileNotFoundError''),
      safe_open = (\<lambda>p. if p = ''hf/model.safetensors''
                        then Inr [(''language_model.lm_head.weight'', demo_stored),
                                  (''multi_modal_projector.linear_1.weight'', demo_stored),
                                  (''multi_modal_projector.linear_1.bias'', demo_stored),
                                  (''multi_modal_projector.linear_2.weight'', demo_stored),
                                  (''multi_modal_projector.linear_2.bias'', demo_stored)]
                        else Inl ''FileNotFoundError''),
      torch_load = (\<lambda>p. if p = ''bin/mm_projector.bin''
                         then Inr [(''model.mm_projector.0.weight'', demo_stored),
                                   (''model.mm_projector.0.bias'', demo_stored),
                                   (''model.mm_projector.2.weight'', demo_stored),
                                   (''model.mm_projector.2.bias'', demo_stored)]
                         else if p = ''cut/mm_projector.bin''
                         then Inr [(''model.mm_projector.0.weight'', demo_stored),
                                   (''model.mm_projector.0.bias'', demo_stored),
                                   (''model.mm_projector.2.weight'', demo_stored)]
                         else Inl ''FileNotFoundError''),
      AutoConfig = (\<lambda>p. Inr (JInt (- 2), JStr ''default'')),
      AutoProcessor = (\<lambda>p. Inr p),
      LlavaForConditionalGeneration =
        (\<lambda>p dt. Inr \<lparr>loaded_from = p, m_dtype = dt, m_dev = CPU, requires_grad = True\<rparr>),
      CLIPImageProcessor = (\<lambda>p. Inr p),
      CLIPVisionModel =
        (\<lambda>p. Inr \<lparr>loaded_from = p, m_dtype = Float32, m_dev = CPU, requires_grad = True\<rparr>)\<rparr>"

definition demo_half :: "nat tensor" where
  "demo_half = \<lparr>dtype = Float16, dev = CPU, shape = [1, 1], elems = [1]\<rparr>"

definition demo_weights :: "(string \<times> nat tensor) list" where
  "demo_weights =
     [(''model.mm_projector.0.weight'', demo_half),
      (''model.mm_projector.0.bias'', demo_half),
      (''model.mm_projector.2.weight'', demo_half),
      (''model.mm_projector.2.bias'', demo_half)]"

definition demo_hf_adapter :: "(nat, string) adapter" where
  "demo_hf_adapter =
     \<lparr>select_layer = JInt (- 2), select_feature = JStr ''default'', image_processor = ''hf'',
      vision_tower = \<lparr>loaded_from = ''hf'', m_dtype = Float16, m_dev = CPU, requires_grad = False\<rparr>,
      projector_weights = demo_weights, device = Some CPU\<rparr>"

definition demo_bin_adapter :: "(nat, string) adapter" where
  "demo_bin_adapter =
     \<lparr>select_layer = JInt (- 2), select_feature = JStr ''patch'', image_processor = ''bin/./clip'',
      vision_tower = \<lparr>loaded_from = ''bin/./clip'', m_dtype = Float16, m_dev = CPU,
                        requires_grad = False\<rparr>,
      projector_weights = demo_weights, device = Some CPU\<rparr>"

definition demo_cut_loaded :: "(nat, string) adapter" where
  "demo_cut_loaded =
     \<lparr>select_layer = JInt (- 2), select_feature = JStr ''patch'',
      image_processor = ''openai/clip-vit-large-patch14-336'',
      vision_tower = \<lparr>loaded_from = ''openai/clip-vit-large-patch14-336'', m_dtype = Float16,
                        m_dev = CPU, requires_grad = True\<rparr>,
      projector_weights =
        [(''model.mm_projector.0.weight'', demo_half),
         (''model.mm_projector.0.bias'', demo_half),
         (''model.mm_projector.2.weight'', demo_half)],
      device = None\<rparr>"

section \<open>Properties of \<open>encode\<close>\<close>

lemma and_then_Inr_iff: "and_then r f = Inr y \<longleftrightarrow> (\<exists>x. r = Inr x \<and> f x = Inr y)"
  by (cases r) (simp_all add: and_then_def)

lemma and_then_Inl_iff: "and_then r f = Inl e \<longleftrightarrow> r = Inl e \<or> (\<exists>x. r = Inr x \<and> f x = Inl e)"
  by (cases r) (simp_all add: and_then_def)

lemma ex_map_Inr_Cons:
  "(\<exists>new. y # ys = map Inr new \<and> P new) \<longleftrightarrow>
   (\<exists>t new'. y = Inr t \<and> ys = map Inr new' \<and> P (t # new'))"
  by (auto simp: Cons_eq_map_conv)

lemma encode_items_Inr:
  "encode_items env st imgs (ts, us, v, rs) = Inr (ts', us', v', rs') \<longleftrightarrow>
     list_all is_ImageItem imgs \<and>
     (\<exists>new. map (\<lambda>i. pixel_values env st (uuid i)) imgs = map Inr new \<and>
        list_all (\<lambda>t. shape t \<noteq> []) new \<and>
        ts' = ts @ new \<and> us' = us @ map uuid imgs \<and>
        v' = v + sum_list (map (\<lambda>t. hd (shape t)) new) \<and>
        rs' = rs @ spec_ranges v (map (\<lambda>t. hd (shape t)) new))"
proof (induction imgs arbitrary: ts us v rs)
  case Nil
  then show ?case by auto
next
  case (Cons img imgs)
  show ?case
  proof (cases img)
    case (Other ty val)
    then show ?thesis by (simp add: and_then_Inr_iff)
  next
    case (ImageItem u)
    show ?thesis
    proof (cases "pixel_values env st u")
      case (Inl e)
      then show ?thesis using ImageItem by (auto simp: and_then_def)
    next
      case (Inr t)
      show ?thesis
      proof (cases "shape t")
        case Nil
        then show ?thesis using ImageItem Inr by (auto simp: and_then_def)
      next
        case (Cons c cs)
        have step: "encode_items env st (img # imgs) (ts, us, v, rs) =
            encode_items env st imgs (ts @ [t], us @ [u], v + c, rs @ [[v, v + c]])"
          using ImageItem Inr Cons by (simp add: and_then_def)
        show ?thesis
          unfolding step Cons.IH
          using Inr Cons ImageItem
          by (simp add: ex_map_Inr_Cons add.assoc)
      qed
    qed
  qed
qed

lemma spec_ranges_closed:
  "spec_ranges s cs = map (\<lambda>i. [s + sum_list (take i cs), s + sum_list (take i cs) + cs ! i]) [0..<length cs]"
proof (induction cs arbitrary: s)
  case Nil
  then show ?case by simp
next
  case (Cons c cs)
  show ?case
    by (simp add: Cons.IH map_upt_Suc add.assoc del: upt_Suc)
qed

lemma ext_not_Exception: "ext r \<noteq> Inl (Exception m)"
  by (cases r) (simp_all add: ext_def)

lemma tensor_cuda_not_Exception: "tensor_cuda env t \<noteq> Inl (Exception m)"
  by (simp add: tensor_cuda_def)

lemma py_index_not_Exception: "py_index xs i \<noteq> Inl (Exception m)"
  by (simp add: py_index_def tuple_at_def split: json.splits)

lemma select_tokens_not_Exception: "select_tokens st x \<noteq> Inl (Exception m)"
  by (simp add: select_tokens_def slice_from_1_def split: list.splits)

lemma weight_not_Exception: "weight st k \<noteq> Inl (Exception m)"
  by (simp add: weight_def split: option.splits)

lemma view_not_Exception: "view dims x \<noteq> Inl (Exception m)"
  by (simp add: view_def Let_def)

lemma mm_project_not_Exception: "mm_project env st x \<noteq> Inl (Exception m)"
  by (simp add: mm_project_def and_then_Inl_iff ext_not_Exception weight_not_Exception
        view_not_Exception split: list.splits)

lemma forward_not_Exception: "forward env st x \<noteq> Inl (Exception m)"
  by (simp add: forward_def and_then_Inl_iff ext_not_Exception tensor_cuda_not_Exception
        py_index_not_Exception select_tokens_not_Exception mm_project_not_Exception)

lemma pixel_values_not_Exception: "pixel_values env st u \<noteq> Inl (Exception m)"
  by (simp add: pixel_values_def and_then_Inl_iff ext_not_Exception)

lemma first_other_Cons_ImageItem:
  "(\<exists>pre ty v post. ImageItem u # imgs = pre @ Other ty v # post \<and> list_all is_ImageItem pre \<and>
       list_all G pre \<and> R ty v) \<longleftrightarrow>
   (G (ImageItem u) \<and>
    (\<exists>pre ty v post. imgs = pre @ Other ty v # post \<and> list_all is_ImageItem pre \<and>
       list_all G pre \<and> R ty v))"
  (is "?L \<longleftrightarrow> ?R")
proof
  assume ?L
  then obtain pre ty v post where
    split: "ImageItem u # imgs = pre @ Other ty v # post" and img: "list_all is_ImageItem pre"
    and g: "list_all G pre" and r: "R ty v"
    by blast
  from split obtain ps where pre: "pre = ImageItem u # ps" and imgs: "imgs = ps @ Other ty v # post"
    by (cases pre) auto
  from pre img g have "G (ImageItem u)" "list_all is_ImageItem ps" "list_all G ps"
    by simp_all
  with imgs r show ?R by blast
next
  assume ?R
  then obtain pre ty v post where g0: "G (ImageItem u)"
    and imgs: "imgs = pre @ Other ty v # post" and img: "list_all is_ImageItem pre"
    and g: "list_all G pre" and r: "R ty v"
    by blast
  have "ImageItem u # imgs = (ImageItem u # pre) @ Other ty v # post"
    using imgs by simp
  moreover have "list_all is_ImageItem (ImageItem u # pre)" using img by simp
  moreover have "list_all G (ImageItem u # pre)" using g g0 by simp
  ultimately show ?L using r by blast
qed

lemma encode_items_Exception:
  "encode_items env st imgs acc = Inl (Exception m) \<longleftrightarrow>
     (\<exists>pre ty v post. imgs = pre @ Other ty v # post \<and> list_all is_ImageItem pre \<and>
        list_all (\<lambda>i. case pixel_values env st (uuid i) of Inl e \<Rightarrow> False
                                                         | Inr t \<Rightarrow> shape t \<noteq> []) pre \<and>
        (\<exists>a b. ty = Inr a \<and> v = Inr b \<and> m = unsupport_message a b))"
proof (induction imgs arbitrary: acc)
  case Nil
  then show ?case by simp
next
  case (Cons img imgs)
  obtain ts us v rs where acc: "acc = (ts, us, v, rs)"
    by (cases acc) auto
  show ?case
  proof (cases img)
    case (Other ty val)
    have lhs: "encode_items env st (img # imgs) acc = Inl (Exception m) \<longleftrightarrow>
        (\<exists>a b. ty = Inr a \<and> val = Inr b \<and> m = unsupport_message a b)"
      unfolding acc using Other
      by (cases ty; cases val) (auto simp: and_then_def ext_def)
    show ?thesis
    proof
      assume "encode_items env st (img # imgs) acc = Inl (Exception m)"
      with lhs have m: "\<exists>a b. ty = Inr a \<and> val = Inr b \<and> m = unsupport_message a b" by simp
      have "img # imgs = [] @ Other ty val # imgs" using Other by simp
      moreover have "list_all is_ImageItem ([] :: item list)" by simp
      moreover have "list_all (\<lambda>i. case pixel_values env st (uuid i) of Inl e \<Rightarrow> False
                                                         | Inr t \<Rightarrow> shape t \<noteq> []) []"
        by simp
      ultimately show "\<exists>pre ty v post. img # imgs = pre @ Other ty v # post \<and>
        list_all is_ImageItem pre \<and>
        list_all (\<lambda>i. case pixel_values env st (uuid i) of Inl e \<Rightarrow> False
                                                         | Inr t \<Rightarrow> shape t \<noteq> []) pre \<and>
        (\<exists>a b. ty = Inr a \<and> v = Inr b \<and> m = unsupport_message a b)"
        using m by blast
    next
      assume "\<exists>pre ty v post. img # imgs = pre @ Other ty v # post \<and>
        list_all is_ImageItem pre \<and>
        list_all (\<lambda>i. case pixel_values env st (uuid i) of Inl e \<Rightarrow> False
                                                         | Inr t \<Rightarrow> shape t \<noteq> []) pre \<and>
        (\<exists>a b. ty = Inr a \<and> v = Inr b \<and> m = unsupport_message a b)"
      then obtain pre ty' v' post where
        split: "img # imgs = pre @ Other ty' v' # post" and pre: "list_all is_ImageItem pre"
        and m: "\<exists>a b. ty' = Inr a \<and> v' = Inr b \<and> m = unsupport_message a b"
        by blast
      have "pre = []"
      proof (cases pre)
        case Nil
        then show ?thesis .
      next
        case (Cons p ps)
        with split pre Other show ?thesis by auto
      qed
      with split Other have "ty' = ty" "v' = val" by simp_all
      with m lhs show "encode_items env st (img # imgs) acc = Inl (Exception m)" by simp
    qed
  next
    case (ImageItem u)
    show ?thesis
    proof (cases "pixel_values env st u")
      case (Inl e)
      then have "e \<noteq> Exception m"
        using pixel_values_not_Exception[of env st u m] by auto
      then show ?thesis
        unfolding acc ImageItem first_other_Cons_ImageItem using Inl by (simp add: and_then_def)
    next
      case (Inr t)
      show ?thesis
      proof (cases "shape t")
        case Nil
        then show ?thesis
          unfolding acc ImageItem first_other_Cons_ImageItem using Inr by (simp add: and_then_def)
      next
        case (Cons c cs)
        have step: "encode_items env st (img # imgs) acc =
            encode_items env st imgs (ts @ [t], us @ [u], v + c, rs @ [[v, v + c]])"
          unfolding acc using ImageItem Inr Cons by (simp add: and_then_def)
        show ?thesis
          unfolding step Cons.IH
          unfolding ImageItem first_other_Cons_ImageItem
          using Inr Cons by simp
      qed
    qed
  qed
qed

lemma encode_Exception:
  "encode env st images = Inl (Exception m) \<longleftrightarrow>
   encode_items env st images ([], [], 0, []) = Inl (Exception m)"
  by (auto simp: encode_def and_then_Inl_iff ext_not_Exception forward_not_Exception)

text \<open>
  C1. On a non-empty list of \<open>ImageItem\<close>s, \<open>encode\<close> returns a triple exactly when
  every image is read, decoded and preprocessed to a tensor with a first dimension
  and the batch goes through \<open>torch.cat\<close> and \<open>forward\<close>. The uuids returned are
  then those of the items in input order, and the \<open>i\<close>-th range starts where the
  tiles of the images before it end (at 0 for the first) and is as long as the number
  of tiles of the \<open>i\<close>-th image. One tile and two tiles give
  \<open>[[0, 1], [1, 3]]\<close>.
\<close>

theorem encode_ranges_uuids:
  assumes "images \<noteq> []" and "list_all is_ImageItem images"
  shows "encode env st images = Inr (Some (embeds, uuids, valid_ranges)) \<longleftrightarrow>
    (\<exists>tiles img.
       map (\<lambda>i. pixel_values env st (uuid i)) images = map Inr tiles \<and>
       list_all (\<lambda>t. shape t \<noteq> []) tiles \<and>
       ext (torch_cat env tiles) = Inr img \<and> forward env st img = Inr embeds \<and>
       uuids = map uuid images \<and>
       valid_ranges =
         map (\<lambda>i. [sum_list (take i (map (\<lambda>t. hd (shape t)) tiles)),
                   sum_list (take i (map (\<lambda>t. hd (shape t)) tiles)) + hd (shape (tiles ! i))])
           [0..<length images])"
  (is "?L \<longleftrightarrow> ?R")
proof
  assume ?L
  then obtain ts us v rs where
    items: "encode_items env st images ([], [], 0, []) = Inr (ts, us, v, rs)"
    and rest: "(if length ts \<le> 0 then Inr None
         else and_then (ext (torch_cat env ts)) (\<lambda>img.
              and_then (forward env st img) (\<lambda>all_img_embeds.
              Inr (Some (all_img_embeds, us, rs))))) = Inr (Some (embeds, uuids, valid_ranges))"
    by (auto simp: encode_def and_then_Inr_iff)
  from items have tiles: "map (\<lambda>i. pixel_values env st (uuid i)) images = map Inr ts"
    and dims: "list_all (\<lambda>t. shape t \<noteq> []) ts"
    and us: "us = map uuid images"
    and rs: "rs = spec_ranges 0 (map (\<lambda>t. hd (shape t)) ts)"
    by (auto simp: encode_items_Inr)
  from tiles have len: "length ts = length images"
    by (auto dest: map_eq_imp_length_eq)
  with assms have "\<not> length ts \<le> 0" by simp
  with rest obtain img where "ext (torch_cat env ts) = Inr img" "forward env st img = Inr embeds"
    "uuids = us" "valid_ranges = rs"
    by (auto simp: and_then_Inr_iff)
  moreover have "rs = map (\<lambda>i. [sum_list (take i (map (\<lambda>t. hd (shape t)) ts)),
                   sum_list (take i (map (\<lambda>t. hd (shape t)) ts)) + hd (shape (ts ! i))])
           [0..<length images]"
    unfolding rs spec_ranges_closed using len by simp
  ultimately show ?R using tiles dims us by blast
next
  assume ?R
  then obtain tiles img where
    tiles: "map (\<lambda>i. pixel_values env st (uuid i)) images = map Inr tiles"
    and dims: "list_all (\<lambda>t. shape t \<noteq> []) tiles"
    and cat: "ext (torch_cat env tiles) = Inr img" and fwd: "forward env st img = Inr embeds"
    and us: "uuids = map uuid images"
    and rs: "valid_ranges =
         map (\<lambda>i. [sum_list (take i (map (\<lambda>t. hd (shape t)) tiles)),
                   sum_list (take i (map (\<lambda>t. hd (shape t)) tiles)) + hd (shape (tiles ! i))])
           [0..<length images]"
    by blast
  from tiles have len: "length tiles = length images"
    by (auto dest: map_eq_imp_length_eq)
  have rs': "valid_ranges = spec_ranges 0 (map (\<lambda>t. hd (shape t)) tiles)"
    unfolding rs spec_ranges_closed using len by simp
  have "encode_items env st images ([], [], 0, []) =
      Inr (tiles, uuids, sum_list (map (\<lambda>t. hd (shape t)) tiles), valid_ranges)"
    using assms tiles dims us rs' by (simp add: encode_items_Inr)
  moreover have "\<not> length tiles \<le> 0" using len assms by simp
  ultimately show ?L
    using cat fwd by (simp add: encode_def and_then_def)
qed

theorem encode_ranges_uuids_witness:
  "[ImageItem 7, ImageItem 9] \<noteq> [] \<and> list_all is_ImageItem [ImageItem 7, ImageItem 9] \<and>
   encode demo_env demo_adapter [ImageItem 7, ImageItem 9] =
     Inr (Some (\<lparr>dtype = Float16, dev = CUDA, shape = [3, 1, 2], elems = [101, 101, 103, 103, 105, 105]\<rparr>,
                [7, 9], [[0, 1], [1, 3]])) \<and>
   (\<exists>tiles. map (\<lambda>i. pixel_values demo_env demo_adapter (uuid i)) [ImageItem 7, ImageItem 9]
               = map Inr tiles \<and>
            [[0, 1], [1, 3]] =
               map (\<lambda>i. [sum_list (take i (map (\<lambda>t. hd (shape t)) tiles)),
                         sum_list (take i (map (\<lambda>t. hd (shape t)) tiles)) + hd (shape (tiles ! i))])
                 [0..<length [ImageItem 7, ImageItem 9]])"
proof -
  have h1: "[ImageItem 7, ImageItem 9] \<noteq> []" by simp
  have h2: "list_all is_ImageItem [ImageItem 7, ImageItem 9]" by simp
  have run: "encode demo_env demo_adapter [ImageItem 7, ImageItem 9] =
     Inr (Some (\<lparr>dtype = Float16, dev = CUDA, shape = [3, 1, 2], elems = [101, 101, 103, 103, 105, 105]\<rparr>,
                [7, 9], [[0, 1], [1, 3]]))"
    by code_simp
  from run encode_ranges_uuids[OF h1 h2, of demo_env demo_adapter] h1 h2
  show ?thesis by blast
qed
text \<open>
  C2. \<open>encode\<close> returns the sentinel \<open>None\<close> on the empty list, and on no other
  input: every other call ends in a triple or in an exception.
\<close>

theorem encode_empty_sentinel: "encode env st images = Inr None \<longleftrightarrow> images = []"
proof (cases images)
  case Nil
  then show ?thesis by (simp add: encode_def and_then_def)
next
  case (Cons a as)
  show ?thesis
  proof
    assume "encode env st images = Inr None"
    then obtain ts us v rs where
      items: "encode_items env st images ([], [], 0, []) = Inr (ts, us, v, rs)"
      and rest: "(if length ts \<le> 0 then Inr None
           else and_then (ext (torch_cat env ts)) (\<lambda>img.
                and_then (forward env st img) (\<lambda>all_img_embeds.
                Inr (Some (all_img_embeds, us, rs))))) = Inr None"
      by (auto simp: encode_def and_then_Inr_iff)
    from items have "length ts = length images"
      by (auto simp: encode_items_Inr dest: map_eq_imp_length_eq)
    with Cons rest show "images = []"
      by (auto simp: and_then_Inr_iff)
  next
    assume "images = []"
    with Cons show "encode env st images = Inr None" by simp
  qed
qed


theorem encode_empty_sentinel_witness:
  "encode demo_env demo_adapter [] = Inr None \<and>
   encode demo_env demo_adapter [ImageItem 7] \<noteq> Inr None"
  using encode_empty_sentinel[of demo_env demo_adapter "[]"]
    encode_empty_sentinel[of demo_env demo_adapter "[ImageItem 7]"]
  by simp


text \<open>
  C3 as stated fails where an image in front of the foreign item cannot be read: the
  loop stops at that image with the collaborator's exception and never reaches the
  item.
\<close>

theorem encode_unsupported_item_counterexample:
  "\<not> is_ImageItem (Other (Inr (class_format ''int'')) (Inr ''3'')) \<and>
   Other (Inr (class_format ''int'')) (Inr ''3'')
     \<in> set [ImageItem 5, Other (Inr (class_format ''int'')) (Inr ''3'')] \<and>
   encode demo_env demo_adapter [ImageItem 5, Other (Inr (class_format ''int'')) (Inr ''3'')] =
     Inl (External ''FileNotFoundError'')"
  by code_simp

text \<open>
  C3, amended. \<open>encode\<close> raises the \<open>Exception\<close> of line 141 exactly when the list
  holds an item that is not an \<open>ImageItem\<close>, every item before the first such one is
  read, decoded and preprocessed to a tensor that has a first dimension, and
  \<open>format\<close> returns a string for the type of that item and for the item. The message
  is then \<open>Unsupport input types: \<close>, the formatted type, \<open> for \<close> and the formatted
  item; the result is the exception alone.
\<close>

theorem encode_unsupported_item:
  "encode env st images = Inl (Exception m) \<longleftrightarrow>
     (\<exists>pre ty v post. images = pre @ Other (Inr ty) (Inr v) # post \<and>
        list_all is_ImageItem pre \<and>
        list_all (\<lambda>i. case pixel_values env st (uuid i) of Inl e \<Rightarrow> False
                                                         | Inr t \<Rightarrow> shape t \<noteq> []) pre \<and>
        m = ''Unsupport input types: '' @ ty @ '' for '' @ v)"
  unfolding encode_Exception encode_items_Exception unsupport_message_def
  by (rule iffI; (elim exE conjE)?; blast)

theorem encode_unsupported_item_witness:
  "encode demo_env demo_adapter [ImageItem 7, Other (Inr (class_format ''int'')) (Inr ''3'')] =
     Inl (Exception (''Unsupport input types: <class '' @ [CHR 0x27] @ ''int'' @ [CHR 0x27]
                       @ ''> for 3'')) \<and>
   (\<exists>pre ty v post.
      [ImageItem 7, Other (Inr (class_format ''int'')) (Inr ''3'')] =
        pre @ Other (Inr ty) (Inr v) # post \<and>
      list_all is_ImageItem pre \<and>
      (''Unsupport input types: <class '' @ [CHR 0x27] @ ''int'' @ [CHR 0x27] @ ''> for 3'') =
        ''Unsupport input types: '' @ ty @ '' for '' @ v)"
proof -
  have run: "encode demo_env demo_adapter
       [ImageItem 7, Other (Inr (class_format ''int'')) (Inr ''3'')] =
     Inl (Exception (''Unsupport input types: <class '' @ [CHR 0x27] @ ''int'' @ [CHR 0x27]
                       @ ''> for 3''))"
    by code_simp
  from run encode_unsupported_item[of demo_env demo_adapter
      "[ImageItem 7, Other (Inr (class_format ''int'')) (Inr ''3'')]"]
  show ?thesis by blast
qed

section \<open>Properties of \<open>forward\<close>\<close>

lemma drop_concat_uniform:
  "list_all (\<lambda>xs. length xs = m) xss \<Longrightarrow> b < length xss \<Longrightarrow> r \<le> m \<Longrightarrow>
   drop (b * m + r) (concat xss) = drop r (xss ! b) @ concat (drop (Suc b) xss)"
proof (induction xss arbitrary: b)
  case Nil
  then show ?case by simp
next
  case (Cons xs xss)
  show ?case
  proof (cases b)
    case 0
    with Cons.prems show ?thesis by simp
  next
    case (Suc b')
    with Cons.prems have "drop (b' * m + r) (concat xss) = drop r (xss ! b') @ concat (drop (Suc b') xss)"
      by (intro Cons.IH) simp_all
    with Cons.prems Suc show ?thesis by (simp add: add.assoc)
  qed
qed

lemma slice_from_1_shape:
  assumes "shape h = [B, L, N]"
  shows "\<exists>h'. slice_from_1 h = Inr h' \<and> shape h' = [B, L - 1, N] \<and> dtype h' = dtype h \<and>
           dev h' = dev h"
  using assms by (simp add: slice_from_1_def)

lemma slice_from_1_token:
  assumes sl: "slice_from_1 h = Inr h'"
    and sh: "shape h = [B, L, N]" and wf: "length (elems h) = B * L * N"
    and b: "b < B" and l: "l < L - 1"
  shows "token_at h' b l = token_at h b (Suc l)"
proof -
  define m where "m = (L - 1) * N"
  define blocks where
    "blocks = map (\<lambda>b. take m (drop (b * L * N + N) (elems h))) [0..<B]"
  have h': "h' = h\<lparr>shape := [B, L - 1, N], elems := concat blocks\<rparr>"
    using sl sh by (simp add: slice_from_1_def blocks_def m_def)
  have room: "m \<le> length (drop (k * L * N + N) (elems h))" if "k < B" for k
  proof -
    have "Suc k * (L * N) \<le> B * (L * N)" using that by (intro mult_le_mono1) simp
    then have "k * L * N + L * N \<le> B * L * N" by (simp add: algebra_simps)
    moreover have "m + N = L * N" using l by (cases L) (simp_all add: m_def)
    ultimately show ?thesis using wf by simp
  qed
  have uni: "list_all (\<lambda>xs. length xs = m) blocks"
    unfolding list_all_iff
  proof
    fix xs assume "xs \<in> set blocks"
    then obtain k where "k < B" and "xs = take m (drop (k * L * N + N) (elems h))"
      by (auto simp: blocks_def)
    with room[of k] show "length xs = m" by simp
  qed
  have lenb: "length blocks = B" by (simp add: blocks_def)
  have fit: "l * N + N \<le> m" 
  proof -
    have "Suc l * N \<le> (L - 1) * N" using l by (intro mult_le_mono1) simp
    then show ?thesis by (simp add: m_def)
  qed
  have blk: "blocks ! b = take m (drop (b * L * N + N) (elems h))"
    using b by (simp add: blocks_def)
  have "token_at h' b l = take N (drop (b * m + l * N) (concat blocks))"
    by (simp add: token_at_def h' m_def algebra_simps)
  also have "\<dots> = take N (drop (l * N) (blocks ! b) @ concat (drop (Suc b) blocks))"
    using drop_concat_uniform[OF uni, of b "l * N"] b lenb fit by simp
  also have "\<dots> = take N (drop (l * N) (blocks ! b))"
    using fit room[OF b] by (simp add: blk)
  also have "\<dots> = take N (drop (l * N + (b * L * N + N)) (elems h))"
    using fit by (simp add: blk drop_take min_def)
  also have "\<dots> = token_at h b (Suc l)"
    using sh by (simp add: token_at_def algebra_simps)
  finally show ?thesis .
qed

lemma ext_Inr_iff: "ext r = Inr x \<longleftrightarrow> r = Inr x"
  by (cases r) (simp_all add: ext_def)

lemma forward_after_tower:
  assumes "tensor_cuda env (half env x) = Inr x'"
    and "tower_forward env (vision_tower st) x' = Inr hidden_states"
  shows "forward env st x =
     and_then (py_index hidden_states (select_layer st)) (\<lambda>h.
     and_then (select_tokens st h) (mm_project env st))"
  using assms by (simp add: forward_def and_then_def ext_def)

text \<open>
  C6. Once the tower has run and a three-dimensional hidden state \<open>h\<close> is selected:
  with \<open>select_feature\<close> "patch" or "default" the projector receives \<open>h\<close> without the
  first token of every image (one token fewer, token \<open>l\<close> of the result being token
  \<open>l + 1\<close> of \<open>h\<close>); with any other value it receives \<open>h\<close> itself.
\<close>

theorem forward_select_feature:
  assumes cuda: "tensor_cuda env (half env x) = Inr x'"
    and tower: "tower_forward env (vision_tower st) x' = Inr hidden_states"
    and layer: "py_index hidden_states (select_layer st) = Inr h"
    and sh: "shape h = [B, L, N]" and wf: "length (elems h) = B * L * N"
  shows "if select_feature st = JStr ''patch'' \<or> select_feature st = JStr ''default''
         then \<exists>h'. forward env st x = mm_project env st h' \<and>
                shape h' = [B, L - 1, N] \<and> dtype h' = dtype h \<and> dev h' = dev h \<and>
                (\<forall>b<B. \<forall>l<L - 1. token_at h' b l = token_at h b (Suc l))
         else forward env st x = mm_project env st h"
proof (cases "select_feature st = JStr ''patch'' \<or> select_feature st = JStr ''default''")
  case True
  from slice_from_1_shape[OF sh] obtain h' where
    sl: "slice_from_1 h = Inr h'" and props: "shape h' = [B, L - 1, N]" "dtype h' = dtype h"
      "dev h' = dev h"
    by blast
  have "forward env st x = mm_project env st h'"
    using True sl layer by (simp add: forward_after_tower[OF cuda tower] select_tokens_def and_then_def)
  moreover have "\<forall>b<B. \<forall>l<L - 1. token_at h' b l = token_at h b (Suc l)"
    using slice_from_1_token[OF sl sh wf] by blast
  ultimately show ?thesis using True props by auto
next
  case False
  then show ?thesis
    using layer by (simp add: forward_after_tower[OF cuda tower] select_tokens_def and_then_def)
qed

text \<open>
  C7. A negative \<open>select_layer\<close> not below minus the number of hidden states selects
  the state at position \<open>n + select_layer\<close>, and \<open>forward\<close> goes on with that state.
\<close>

theorem forward_negative_select_layer:
  assumes cuda: "tensor_cuda env (half env x) = Inr x'"
    and tower: "tower_forward env (vision_tower st) x' = Inr hidden_states"
    and layer: "select_layer st = JInt i"
    and range: "- int (length hidden_states) \<le> i" "i < 0"
  shows "py_index hidden_states (select_layer st) =
           Inr (hidden_states ! nat (int (length hidden_states) + i)) \<and>
         forward env st x =
           and_then (select_tokens st (hidden_states ! nat (int (length hidden_states) + i)))
             (mm_project env st)"
proof -
  have "py_index hidden_states (select_layer st) =
           Inr (hidden_states ! nat (int (length hidden_states) + i))"
    using layer range by (simp add: py_index_def tuple_at_def)
  then show ?thesis
    by (simp add: forward_after_tower[OF cuda tower] and_then_def)
qed

theorem forward_negative_select_layer_witness:
  "tensor_cuda demo_env (half demo_env demo_batch) = Inr (demo_batch\<lparr>dtype := Float16, dev := CUDA\<rparr>) \<and>
   tower_forward demo_env (vision_tower demo_adapter) (demo_batch\<lparr>dtype := Float16, dev := CUDA\<rparr>) =
     Inr [demo_hidden 3 0, demo_hidden 3 1, demo_hidden 3 2] \<and>
   select_layer demo_adapter = JInt (- 2) \<and>
   py_index [demo_hidden 3 0, demo_hidden 3 1, demo_hidden 3 2] (select_layer demo_adapter) =
     Inr (demo_hidden 3 1) \<and>
   forward demo_env demo_adapter demo_batch =
     Inr \<lparr>dtype = Float16, dev = CUDA, shape = [3, 1, 2], elems = [101, 101, 103, 103, 105, 105]\<rparr>"
proof -
  have cuda: "tensor_cuda demo_env (half demo_env demo_batch) =
      Inr (demo_batch\<lparr>dtype := Float16, dev := CUDA\<rparr>)"
    by code_simp
  have tower: "tower_forward demo_env (vision_tower demo_adapter)
       (demo_batch\<lparr>dtype := Float16, dev := CUDA\<rparr>) =
     Inr [demo_hidden 3 0, demo_hidden 3 1, demo_hidden 3 2]"
    by code_simp
  have layer: "select_layer demo_adapter = JInt (- 2)"
    by (simp add: demo_adapter_def)
  have range: "- int (length [demo_hidden 3 0, demo_hidden 3 1, demo_hidden 3 2]) \<le> - 2"
    "(- 2 :: int) < 0"
    by simp_all
  have pos: "[demo_hidden 3 0, demo_hidden 3 1, demo_hidden 3 2] !
       nat (int (length [demo_hidden 3 0, demo_hidden 3 1, demo_hidden 3 2]) + - 2) = demo_hidden 3 1"
    by simp
  have run: "and_then (select_tokens demo_adapter (demo_hidden 3 1)) (mm_project demo_env demo_adapter) =
     Inr \<lparr>dtype = Float16, dev = CUDA, shape = [3, 1, 2], elems = [101, 101, 103, 103, 105, 105]\<rparr>"
    by code_simp
  from forward_negative_select_layer[OF cuda tower layer range] cuda tower layer
  show ?thesis unfolding pos run by simp
qed

theorem forward_select_feature_witness:
  "tensor_cuda demo_env (half demo_env demo_batch) = Inr (demo_batch\<lparr>dtype := Float16, dev := CUDA\<rparr>) \<and>
   tower_forward demo_env (vision_tower demo_adapter) (demo_batch\<lparr>dtype := Float16, dev := CUDA\<rparr>) =
     Inr [demo_hidden 3 0, demo_hidden 3 1, demo_hidden 3 2] \<and>
   py_index [demo_hidden 3 0, demo_hidden 3 1, demo_hidden 3 2] (select_layer demo_adapter) =
     Inr (demo_hidden 3 1) \<and>
   shape (demo_hidden 3 1) = [3, 2, 1] \<and> length (elems (demo_hidden 3 1)) = 3 * 2 * 1 \<and>
   select_feature demo_adapter = JStr ''patch'' \<and>
   token_at (demo_hidden 3 1) 2 0 = [104] \<and> token_at (demo_hidden 3 1) 2 1 = [105] \<and>
   (\<exists>h'. forward demo_env demo_adapter demo_batch = mm_project demo_env demo_adapter h' \<and>
         shape h' = [3, 1, 1] \<and> token_at h' 2 0 = [105])"
proof -
  have cuda: "tensor_cuda demo_env (half demo_env demo_batch) =
      Inr (demo_batch\<lparr>dtype := Float16, dev := CUDA\<rparr>)"
    by code_simp
  have tower: "tower_forward demo_env (vision_tower demo_adapter)
       (demo_batch\<lparr>dtype := Float16, dev := CUDA\<rparr>) =
     Inr [demo_hidden 3 0, demo_hidden 3 1, demo_hidden 3 2]"
    by code_simp
  have layer: "py_index [demo_hidden 3 0, demo_hidden 3 1, demo_hidden 3 2] (select_layer demo_adapter) =
     Inr (demo_hidden 3 1)"
    by code_simp
  have sh: "shape (demo_hidden 3 1) = [3, 2, 1]"
    by (simp add: demo_hidden_def)
  have wf: "length (elems (demo_hidden 3 1)) = 3 * 2 * 1"
    by (simp add: demo_hidden_def)
  have feat: "select_feature demo_adapter = JStr ''patch''"
    by (simp add: demo_adapter_def)
  have t0: "token_at (demo_hidden 3 1) 2 0 = [104]" by code_simp
  have t1: "token_at (demo_hidden 3 1) 2 1 = [105]" by code_simp
  from forward_select_feature[OF cuda tower layer sh wf] feat
  obtain h' where "forward demo_env demo_adapter demo_batch = mm_project demo_env demo_adapter h'"
    and "shape h' = [3, 2 - 1, 1]"
    and "\<forall>b<3. \<forall>l<2 - 1. token_at h' b l = token_at (demo_hidden 3 1) b (Suc l)"
    by auto
  then have "forward demo_env demo_adapter demo_batch = mm_project demo_env demo_adapter h'"
    and "shape h' = [3, 1, 1]" and "token_at h' 2 0 = [105]"
    using t1 by simp_all
  then show ?thesis
    using cuda tower layer sh wf feat t0 t1 by blast
qed

section \<open>The embedding batch\<close>

lemma view3_shape:
  "view [int B, int L, - 1] z = Inr y \<Longrightarrow> shape y = [B, L, prod_list (shape z) div (B * L)]"
  by (auto simp: view_def Let_def split: if_splits)

lemma mm_project_shape:
  assumes "mm_project env st x = Inr y"
  shows "\<exists>B L N K. shape x = [B, L, N] \<and> shape y = [B, L, K]"
proof -
  from assms obtain B L N where sh: "shape x = [B, L, N]"
    by (auto simp: mm_project_def split: list.splits)
  with assms obtain z where "view [int B, int L, - 1] z = Inr y"
    by (auto simp: mm_project_def and_then_Inr_iff)
  from view3_shape[OF this] sh show ?thesis by blast
qed

lemma select_tokens_hd: "select_tokens st h = Inr h1 \<Longrightarrow> hd (shape h1) = hd (shape h)"
  by (auto simp: select_tokens_def slice_from_1_def split: if_splits list.splits)

lemma py_index_mem: "py_index hs i = Inr h \<Longrightarrow> h \<in> set hs"
  by (auto simp: py_index_def tuple_at_def split: json.splits if_splits)

lemma tensor_cuda_half_shape: "tensor_cuda env (half env x) = Inr x' \<Longrightarrow> shape x' = shape x"
  by (auto simp: tensor_cuda_def half_def split: if_splits)

lemma forward_shape:
  assumes "forward env st x = Inr y"
  shows "\<exists>x' hs h L K. tensor_cuda env (half env x) = Inr x' \<and> shape x' = shape x \<and>
           tower_forward env (vision_tower st) x' = Inr hs \<and> h \<in> set hs \<and>
           shape y = [hd (shape h), L, K]"
proof -
  from assms obtain x' hs h h1 where
    cuda: "tensor_cuda env (half env x) = Inr x'"
    and tower: "tower_forward env (vision_tower st) x' = Inr hs"
    and idx: "py_index hs (select_layer st) = Inr h"
    and sel: "select_tokens st h = Inr h1"
    and proj: "mm_project env st h1 = Inr y"
    by (auto simp: forward_def and_then_Inr_iff ext_Inr_iff)
  from mm_project_shape[OF proj] obtain B L N K where "shape h1 = [B, L, N]" "shape y = [B, L, K]"
    by blast
  with select_tokens_hd[OF sel] have "shape y = [hd (shape h), L, K]" by simp
  with cuda tower py_index_mem[OF idx] tensor_cuda_half_shape[OF cuda] show ?thesis by blast
qed














section \<open>Properties of \<open>cuda\<close>\<close>

lemma dict_set_present:
  "distinct (map fst d) \<Longrightarrow> k \<in> fst ` set d \<Longrightarrow>
   dict_set k v d = map (\<lambda>(k', v'). if k' = k then (k', v) else (k', v')) d"
proof (induction d)
  case Nil
  then show ?case by simp
next
  case (Cons kv d)
  obtain k' v' where kv: "kv = (k', v')" by (cases kv)
  show ?case
  proof (cases "k' = k")
    case True
    with Cons.prems kv have "k \<notin> fst ` set d" by simp
    then have "map (\<lambda>(k', v'). if k' = k then (k', v) else (k', v')) d = d"
      by (induction d) auto
    with True kv show ?thesis by simp
  next
    case False
    with Cons kv show ?thesis by auto
  qed
qed

lemma cuda_items_map:
  assumes "cuda_available env" and "distinct (map fst d)" and "distinct (map fst items)"
    and "set items \<subseteq> set d"
  shows "cuda_items env items d =
     Inr (map (\<lambda>(k, v). if k \<in> fst ` set items then (k, v\<lparr>dev := CUDA\<rparr>) else (k, v)) d)"
  using assms(2-)
proof (induction items arbitrary: d)
  case Nil
  then show ?case by simp
next
  case (Cons kv items)
  obtain k v where kv: "kv = (k, v)" by (cases kv)
  let ?d1 = "map (\<lambda>(k', v'). if k' = k then (k', v'\<lparr>dev := CUDA\<rparr>) else (k', v')) d"
  have mem: "(k, v) \<in> set d" using Cons.prems kv by simp
  have uniq: "v' = v" if "(k, v') \<in> set d" for v'
    using that mem Cons.prems(1) by (meson eq_key_imp_eq_value)
  have "dict_set k (v\<lparr>dev := CUDA\<rparr>) d =
      map (\<lambda>(k', v'). if k' = k then (k', v\<lparr>dev := CUDA\<rparr>) else (k', v')) d"
    using dict_set_present[OF Cons.prems(1), of k] mem by force
  also have "\<dots> = ?d1"
    using uniq by (intro map_cong) auto
  finally have set1: "dict_set k (v\<lparr>dev := CUDA\<rparr>) d = ?d1" .
  have keys1: "map fst ?d1 = map fst d" by (induction d) auto
  have notin: "k \<notin> fst ` set items" using Cons.prems(2) kv by simp
  have sub1: "set items \<subseteq> set ?d1"
  proof
    fix x assume x: "x \<in> set items"
    then have xd: "x \<in> set d" using Cons.prems(3) by auto
    have "fst x \<noteq> k" using x notin by force
    then have "(\<lambda>(k', v'). if k' = k then (k', v'\<lparr>dev := CUDA\<rparr>) else (k', v')) x = x"
      by (cases x) simp
    with xd show "x \<in> set ?d1"
      unfolding set_map by (metis (lifting) imageI)
  qed
  have "cuda_items env (kv # items) d = cuda_items env items ?d1"
    using assms(1) kv set1 by (simp add: tensor_cuda_def and_then_def)
  also have "\<dots> = Inr (map (\<lambda>(k, v). if k \<in> fst ` set items then (k, v\<lparr>dev := CUDA\<rparr>) else (k, v)) ?d1)"
  proof (rule Cons.IH)
    show "distinct (map fst ?d1)" using Cons.prems(1) by (simp only: keys1)
    show "distinct (map fst items)" using Cons.prems(2) by simp
    show "set items \<subseteq> set ?d1" by (rule sub1)
  qed
  also have "map (\<lambda>(k, v). if k \<in> fst ` set items then (k, v\<lparr>dev := CUDA\<rparr>) else (k, v)) ?d1 =
      map (\<lambda>(k, v). if k \<in> fst ` set (kv # items) then (k, v\<lparr>dev := CUDA\<rparr>) else (k, v)) d"
    using notin kv by (auto simp: comp_def)
  finally show ?case .
qed

lemma cuda_items_all:
  assumes "cuda_available env" and "distinct (map fst d)"
  shows "cuda_items env d d = Inr (map (\<lambda>(k, v). (k, v\<lparr>dev := CUDA\<rparr>)) d)"
proof -
  have "map (\<lambda>(k, v). if k \<in> fst ` set d then (k, v\<lparr>dev := CUDA\<rparr>) else (k, v)) d =
      map (\<lambda>(k, v). (k, v\<lparr>dev := CUDA\<rparr>)) d"
    by (intro map_cong) force+
  with cuda_items_map[OF assms(1,2) assms(2)] show ?thesis by simp
qed

text \<open>
  C9. \<open>projector_weights\<close> is a dict: its keys are distinct. Where there is an
  accelerator \<open>cuda\<close> returns, and what it returns is the adapter it was given with the
  tower moved to the accelerator and every tensor of \<open>projector_weights\<close> moved
  there under its key, nothing else changed (where there is none, the first \<open>.cuda()\<close>
  raises). A second \<open>cuda\<close> returns that very adapter again.
\<close>

theorem cuda_idempotent:
  assumes dict: "distinct (map fst (projector_weights st))"
  shows "cuda env st =
           (if cuda_available env
            then Inr (st\<lparr>vision_tower := (vision_tower st)\<lparr>m_dev := CUDA\<rparr>,
                         projector_weights :=
                           map (\<lambda>(k, v). (k, v\<lparr>dev := CUDA\<rparr>)) (projector_weights st)\<rparr>)
            else Inl RuntimeError) \<and>
         (\<forall>st'. cuda env st = Inr st' \<longrightarrow>
            m_dev (vision_tower st') = CUDA \<and>
            list_all (\<lambda>(k, v). dev v = CUDA) (projector_weights st') \<and>
            map fst (projector_weights st') = map fst (projector_weights st) \<and>
            cuda env st' = Inr st')"
proof (cases "cuda_available env")
  case False
  then show ?thesis
    by (simp add: cuda_def module_cuda_def and_then_def)
next
  case avail: True
  define st' where "st' = st\<lparr>vision_tower := (vision_tower st)\<lparr>m_dev := CUDA\<rparr>,
      projector_weights := map (\<lambda>(k, v). (k, v\<lparr>dev := CUDA\<rparr>)) (projector_weights st)\<rparr>"
  have run: "cuda env st = Inr st'"
    using avail cuda_items_all[OF avail dict]
    by (simp add: cuda_def module_cuda_def and_then_def st'_def)
  have keys: "map fst (projector_weights st') = map fst (projector_weights st)"
    unfolding st'_def by (simp add: comp_def case_prod_unfold)
  have all: "list_all (\<lambda>(k, v). dev v = CUDA) (projector_weights st')"
    unfolding st'_def by (simp add: list_all_iff case_prod_unfold)
  have again: "map (\<lambda>(k, v). (k, v\<lparr>dev := CUDA\<rparr>)) (projector_weights st') = projector_weights st'"
    unfolding st'_def by (simp add: comp_def case_prod_unfold)
  have d': "distinct (map fst (projector_weights st'))"
    using keys dict by simp
  have items: "cuda_items env (projector_weights st') (projector_weights st') =
      Inr (projector_weights st')"
    using cuda_items_all[OF avail d'] again by simp
  have tower: "(vision_tower st')\<lparr>m_dev := CUDA\<rparr> = vision_tower st'"
    by (simp add: st'_def)
  have twice: "cuda env st' = Inr st'"
    using avail items tower by (simp add: cuda_def module_cuda_def and_then_def)
  have dev: "m_dev (vision_tower st') = CUDA" by (simp add: st'_def)
  have "cuda env st = (if cuda_available env then Inr st' else Inl RuntimeError)"
    using run avail by simp
  moreover have "\<forall>s. cuda env st = Inr s \<longrightarrow>
            m_dev (vision_tower s) = CUDA \<and>
            list_all (\<lambda>(k, v). dev v = CUDA) (projector_weights s) \<and>
            map fst (projector_weights s) = map fst (projector_weights st) \<and>
            cuda env s = Inr s"
    using run keys all twice dev by simp
  ultimately show ?thesis unfolding st'_def by (rule conjI)
qed

theorem cuda_idempotent_witness:
  "distinct (map fst (projector_weights demo_hf_adapter)) \<and>
   cuda_available demo_env \<and>
   cuda demo_env demo_hf_adapter =
     Inr (demo_hf_adapter\<lparr>vision_tower := (vision_tower demo_hf_adapter)\<lparr>m_dev := CUDA\<rparr>,
            projector_weights :=
              map (\<lambda>(k, v). (k, v\<lparr>dev := CUDA\<rparr>)) (projector_weights demo_hf_adapter)\<rparr>) \<and>
   projector_weights demo_hf_adapter =
     [(''model.mm_projector.0.weight'', demo_half), (''model.mm_projector.0.bias'', demo_half),
      (''model.mm_projector.2.weight'', demo_half), (''model.mm_projector.2.bias'', demo_half)] \<and>
   map (\<lambda>(k, v). (k, v\<lparr>dev := CUDA\<rparr>)) (projector_weights demo_hf_adapter) =
     [(''model.mm_projector.0.weight'', demo_weight), (''model.mm_projector.0.bias'', demo_weight),
      (''model.mm_projector.2.weight'', demo_weight), (''model.mm_projector.2.bias'', demo_weight)] \<and>
   cuda demo_env
     (demo_hf_adapter\<lparr>vision_tower := (vision_tower demo_hf_adapter)\<lparr>m_dev := CUDA\<rparr>,
        projector_weights :=
          map (\<lambda>(k, v). (k, v\<lparr>dev := CUDA\<rparr>)) (projector_weights demo_hf_adapter)\<rparr>) =
     Inr (demo_hf_adapter\<lparr>vision_tower := (vision_tower demo_hf_adapter)\<lparr>m_dev := CUDA\<rparr>,
            projector_weights :=
              map (\<lambda>(k, v). (k, v\<lparr>dev := CUDA\<rparr>)) (projector_weights demo_hf_adapter)\<rparr>)"
proof -
  have dict: "distinct (map fst (projector_weights demo_hf_adapter))"
    by code_simp
  have avail: "cuda_available demo_env"
    by (simp add: demo_env_def)
  have before: "projector_weights demo_hf_adapter =
     [(''model.mm_projector.0.weight'', demo_half), (''model.mm_projector.0.bias'', demo_half),
      (''model.mm_projector.2.weight'', demo_half), (''model.mm_projector.2.bias'', demo_half)]"
    by (simp add: demo_hf_adapter_def demo_weights_def)
  have after: "map (\<lambda>(k, v). (k, v\<lparr>dev := CUDA\<rparr>)) (projector_weights demo_hf_adapter) =
     [(''model.mm_projector.0.weight'', demo_weight), (''model.mm_projector.0.bias'', demo_weight),
      (''model.mm_projector.2.weight'', demo_weight), (''model.mm_projector.2.bias'', demo_weight)]"
    by (simp add: before demo_half_def demo_weight_def)
  note inst = cuda_idempotent[OF dict, of demo_env, unfolded if_P[OF avail]]
  have once: "cuda demo_env demo_hf_adapter =
     Inr (demo_hf_adapter\<lparr>vision_tower := (vision_tower demo_hf_adapter)\<lparr>m_dev := CUDA\<rparr>,
            projector_weights :=
              map (\<lambda>(k, v). (k, v\<lparr>dev := CUDA\<rparr>)) (projector_weights demo_hf_adapter)\<rparr>)"
    by (rule inst[THEN conjunct1])
  from inst[THEN conjunct2] once
  have twice: "cuda demo_env
     (demo_hf_adapter\<lparr>vision_tower := (vision_tower demo_hf_adapter)\<lparr>m_dev := CUDA\<rparr>,
        projector_weights :=
          map (\<lambda>(k, v). (k, v\<lparr>dev := CUDA\<rparr>)) (projector_weights demo_hf_adapter)\<rparr>) =
     Inr (demo_hf_adapter\<lparr>vision_tower := (vision_tower demo_hf_adapter)\<lparr>m_dev := CUDA\<rparr>,
            projector_weights :=
              map (\<lambda>(k, v). (k, v\<lparr>dev := CUDA\<rparr>)) (projector_weights demo_hf_adapter)\<rparr>)"
    by blast
  from dict avail once before after twice show ?thesis by (intro conjI)
qed

section \<open>Properties of \<open>load_model\<close>\<close>

lemma snd_io_bind_Inr:
  "snd (io_bind m f) = Inr y \<longleftrightarrow> (\<exists>x. snd m = Inr x \<and> snd (f x) = Inr y)"
  by (cases m; cases "snd m") (auto simp: io_bind_def split: prod.splits)

lemma snd_io_bind_known: "snd m = Inr x \<Longrightarrow> snd (io_bind m f) = snd (f x)"
  by (cases m) (auto simp: io_bind_def split: prod.splits)

lemma snd_io_call: "snd (io_call ev r) = ext r"
  by (simp add: io_call_def)

lemma fst_io_bind:
  "fst (io_bind m f) = fst m @ (case snd m of Inl e \<Rightarrow> [] | Inr x \<Rightarrow> fst (f x))"
  by (cases m; cases "snd m") (auto simp: io_bind_def split: prod.splits)

lemma trace_io_bind:
  "list_all P (fst m) \<Longrightarrow> (\<And>x. list_all P (fst (f x))) \<Longrightarrow> list_all P (fst (io_bind m f))"
  by (simp add: fst_io_bind split: sum.splits)

lemma dict_set_all: "list_all P d \<Longrightarrow> P (k, v) \<Longrightarrow> list_all P (dict_set k v d)"
  by (induction d) auto

lemma dtype_half: "dtype (half env t) = Float16"
  by (simp add: half_def)

lemma hf_keys_half:
  "list_all (\<lambda>(k, t). dtype t = Float16) w \<Longrightarrow> list_all (\<lambda>(k, t). dtype t = Float16) (hf_keys env d w)"
proof (induction d arbitrary: w)
  case Nil
  then show ?case by simp
next
  case (Cons kt d)
  obtain k t where kt: "kt = (k, t)" by (cases kt)
  show ?case
    unfolding kt hf_keys.simps Let_def
    by (intro Cons.IH) (simp add: dict_set_all dtype_half Cons.prems)
qed

lemma bin_items_half:
  "list_all (\<lambda>(k, t). dtype t = Float16) w \<Longrightarrow> list_all (\<lambda>(k, t). dtype t = Float16) (bin_items env d w)"
proof (induction d arbitrary: w)
  case Nil
  then show ?case by simp
next
  case (Cons kt d)
  obtain k t where kt: "kt = (k, t)" by (cases kt)
  show ?case
    unfolding kt bin_items.simps
    by (intro Cons.IH) (simp add: dict_set_all dtype_half Cons.prems)
qed

lemma hf_files_half:
  "snd (hf_files io env dir fs w) = Inr w' \<Longrightarrow> list_all (\<lambda>(k, t). dtype t = Float16) w \<Longrightarrow>
   list_all (\<lambda>(k, t). dtype t = Float16) w'"
proof (induction fs arbitrary: w)
  case Nil
  then show ?case by (simp add: io_ret_def)
next
  case (Cons f fs)
  show ?case
  proof (cases "endswith f ''.safetensors''")
    case True
    with Cons.prems(1) obtain d where "snd (hf_files io env dir fs (hf_keys env d w)) = Inr w'"
      by (auto simp: snd_io_bind_Inr)
    then show ?thesis
      using Cons.prems(2) by (rule Cons.IH[OF _ hf_keys_half])
  next
    case False
    with Cons show ?thesis by simp
  qed
qed

lemma bin_files_half:
  "snd (bin_files io env dir fs w) = Inr w' \<Longrightarrow> list_all (\<lambda>(k, t). dtype t = Float16) w \<Longrightarrow>
   list_all (\<lambda>(k, t). dtype t = Float16) w'"
proof (induction fs arbitrary: w)
  case Nil
  then show ?case by (simp add: io_ret_def)
next
  case (Cons f fs)
  show ?case
  proof (cases "endswith f ''.bin''")
    case True
    with Cons.prems(1) obtain d where "snd (bin_files io env dir fs (bin_items env d w)) = Inr w'"
      by (auto simp: snd_io_bind_Inr)
    then show ?thesis
      using Cons.prems(2) by (rule Cons.IH[OF _ bin_items_half])
  next
    case False
    with Cons show ?thesis by simp
  qed
qed

lemma load_hf_model_half:
  assumes "snd (load_hf_model io env config dir) = Inr st"
  shows "list_all (\<lambda>(k, t). dtype t = Float16) (projector_weights st)"
proof -
  from assms obtain files w where "snd (hf_files io env dir files []) = Inr w"
    and "projector_weights st = w"
    by (auto simp: load_hf_model_def snd_io_bind_Inr io_ret_def)
  with hf_files_half[of io env dir files "[]" w] show ?thesis by simp
qed

lemma load_bin_model_half:
  assumes "snd (load_bin_model io env config dir) = Inr st"
  shows "list_all (\<lambda>(k, t). dtype t = Float16) (projector_weights st)"
proof -
  from assms obtain files w where "snd (bin_files io env dir files []) = Inr w"
    and "projector_weights st = w"
    by (auto simp: load_bin_model_def snd_io_bind_Inr io_ret_def)
  with bin_files_half[of io env dir files "[]" w] show ?thesis by simp
qed

lemma finish_load_Inr:
  assumes "snd (finish_load st) = Inr st'"
  shows "projector_weights st' = projector_weights st \<and>
     set canonical_keys \<subseteq> fst ` set (projector_weights st')"
  using assms
  by (auto simp: finish_load_def canonical_keys_def Let_def io_raise_def io_ret_def
        split: if_splits)

lemma load_model_Inr:
  assumes "snd (load_model io env dir) = Inr st"
  shows "\<exists>config hf st0. json_load io (path_join dir ''config.json'') = Inr config \<and>
     py_contains ''text_config'' config = Inr hf \<and>
     snd (if hf then load_hf_model io env config dir else load_bin_model io env config dir) = Inr st0 \<and>
     snd (finish_load st0) = Inr st"
  using assms
  by (auto simp: load_model_def snd_io_bind_Inr snd_io_call ext_Inr_iff io_lift_def)

text \<open>
  C10. After a \<open>load_model\<close> that returned, every tensor of \<open>projector_weights\<close> is in
  half precision, whichever strategy loaded it.
\<close>

theorem load_model_half_precision:
  assumes "load_model io env weight_dir = (tr, Inr st)"
  shows "list_all (\<lambda>(k, t). dtype t = Float16) (projector_weights st)"
proof -
  from assms have "snd (load_model io env weight_dir) = Inr st" by simp
  from load_model_Inr[OF this] obtain config hf st0 where
    strat: "snd (if hf then load_hf_model io env config weight_dir
                 else load_bin_model io env config weight_dir) = Inr st0"
    and fin: "snd (finish_load st0) = Inr st"
    by blast
  from strat have "list_all (\<lambda>(k, t). dtype t = Float16) (projector_weights st0)"
    by (cases hf) (auto dest: load_hf_model_half load_bin_model_half)
  with finish_load_Inr[OF fin] show ?thesis by simp
qed

theorem load_model_half_precision_witness:
  "load_model demo_io demo_env ''hf'' =
     ([Call_json_load ''hf/config.json'', Call_AutoConfig ''hf'', Call_AutoProcessor ''hf'',
       Call_LlavaForConditionalGeneration ''hf'', Call_listdir ''hf'',
       Call_safe_open ''hf/model.safetensors''], Inr demo_hf_adapter) \<and>
   list_all (\<lambda>(k, t). dtype t = Float16) (projector_weights demo_hf_adapter) \<and>
   load_model demo_io demo_env ''bin'' =
     ([Call_json_load ''bin/config.json'', Call_CLIPImageProcessor ''bin/./clip'',
       Call_CLIPVisionModel ''bin/./clip'', Call_listdir ''bin'',
       Call_torch_load ''bin/mm_projector.bin''], Inr demo_bin_adapter) \<and>
   list_all (\<lambda>(k, t). dtype t = Float16) (projector_weights demo_bin_adapter)"
proof -
  have hf: "load_model demo_io demo_env ''hf'' =
     ([Call_json_load ''hf/config.json'', Call_AutoConfig ''hf'', Call_AutoProcessor ''hf'',
       Call_LlavaForConditionalGeneration ''hf'', Call_listdir ''hf'',
       Call_safe_open ''hf/model.safetensors''], Inr demo_hf_adapter)"
    by code_simp
  have bin: "load_model demo_io demo_env ''bin'' =
     ([Call_json_load ''bin/config.json'', Call_CLIPImageProcessor ''bin/./clip'',
       Call_CLIPVisionModel ''bin/./clip'', Call_listdir ''bin'',
       Call_torch_load ''bin/mm_projector.bin''], Inr demo_bin_adapter)"
    by code_simp
  from load_model_half_precision[OF hf] load_model_half_precision[OF bin] hf bin
  show ?thesis by simp
qed

lemma io_bind_known: "io_bind (tr, Inr x) f = (tr @ fst (f x), snd (f x))"
  by (simp add: io_bind_def split: prod.splits)

lemma load_model_after_config:
  assumes cfg: "json_load io (path_join weight_dir ''config.json'') = Inr config"
    and hf: "py_contains ''text_config'' config = Inr hf"
  shows "load_model io env weight_dir =
     io_bind ([Call_json_load (path_join weight_dir ''config.json'')], Inr config) (\<lambda>config.
       io_bind (if hf then load_hf_model io env config weight_dir
                else load_bin_model io env config weight_dir) finish_load)"
  using cfg hf
  by (simp add: load_model_def io_call_def io_lift_def ext_def io_bind_known)

lemma fst_io_call: "fst (io_call ev r) = [ev]"
  by (simp add: io_call_def)

lemma fst_io_lift: "fst (io_lift r) = []"
  by (simp add: io_lift_def)

lemma fst_io_ret: "fst (io_ret x) = []"
  by (simp add: io_ret_def)

lemma fst_finish_load: "fst (finish_load st) = []"
  by (simp add: finish_load_def Let_def io_raise_def io_ret_def)

lemma hf_files_trace: "list_all (\<lambda>ev. \<not> is_bin_call ev) (fst (hf_files io env dir fs w))"
proof (induction fs arbitrary: w)
  case Nil
  then show ?case by (simp add: fst_io_ret)
next
  case (Cons f fs)
  then show ?case
    by (auto intro!: trace_io_bind simp: fst_io_call)
qed

lemma bin_files_trace: "list_all (\<lambda>ev. \<not> is_hf_call ev) (fst (bin_files io env dir fs w))"
proof (induction fs arbitrary: w)
  case Nil
  then show ?case by (simp add: fst_io_ret)
next
  case (Cons f fs)
  then show ?case
    by (auto intro!: trace_io_bind simp: fst_io_call)
qed

lemma load_hf_model_trace:
  "list_all (\<lambda>ev. \<not> is_bin_call ev) (fst (load_hf_model io env config dir))"
  unfolding load_hf_model_def
  by (auto intro!: trace_io_bind simp: fst_io_call fst_io_ret hf_files_trace split_beta)

lemma load_bin_model_trace:
  "list_all (\<lambda>ev. \<not> is_hf_call ev) (fst (load_bin_model io env config dir))"
  unfolding load_bin_model_def
  by (auto intro!: trace_io_bind simp: fst_io_call fst_io_ret fst_io_lift bin_files_trace)

lemma load_hf_model_first: "\<exists>tr. fst (load_hf_model io env config dir) = Call_AutoConfig dir # tr"
  by (simp add: load_hf_model_def fst_io_bind fst_io_call)

text \<open>
  C5. For a configuration that is a mapping: with the key \<open>text_config\<close>,
  \<open>load_model\<close> is the reading of \<open>config.json\<close>, then \<open>load_hf_model\<close>, then the
  final assertions; its trace goes on with \<open>AutoConfig.from_pretrained\<close> and holds
  no call of the loose strategy (CLIP processor, CLIP model, \<open>torch.load\<close>). Without
  the key it is the reading, then \<open>load_bin_model\<close>, then the assertions, and its
  trace holds no call of the packaged strategy.
\<close>

theorem load_model_strategy:
  assumes cfg: "json_load io (path_join weight_dir ''config.json'') = Inr (JObj kvs)"
  shows "if ''text_config'' \<in> set (map fst kvs)
         then load_model io env weight_dir =
                io_bind ([Call_json_load (path_join weight_dir ''config.json'')], Inr (JObj kvs))
                  (\<lambda>config. io_bind (load_hf_model io env config weight_dir) finish_load) \<and>
              (\<exists>tr. fst (load_model io env weight_dir) =
                  Call_json_load (path_join weight_dir ''config.json'') #
                  Call_AutoConfig weight_dir # tr) \<and>
              list_all (\<lambda>ev. \<not> is_bin_call ev) (fst (load_model io env weight_dir))
         else load_model io env weight_dir =
                io_bind ([Call_json_load (path_join weight_dir ''config.json'')], Inr (JObj kvs))
                  (\<lambda>config. io_bind (load_bin_model io env config weight_dir) finish_load) \<and>
              list_all (\<lambda>ev. \<not> is_hf_call ev) (fst (load_model io env weight_dir))"
proof (cases "''text_config'' \<in> set (map fst kvs)")
  case True
  then have hf: "py_contains ''text_config'' (JObj kvs) = Inr True"
    by (simp add: py_contains_def)
  have eq: "load_model io env weight_dir =
      io_bind ([Call_json_load (path_join weight_dir ''config.json'')], Inr (JObj kvs))
        (\<lambda>config. io_bind (load_hf_model io env config weight_dir) finish_load)"
    using load_model_after_config[OF cfg hf] by simp
  have tr: "fst (load_model io env weight_dir) =
      Call_json_load (path_join weight_dir ''config.json'') #
      fst (io_bind (load_hf_model io env (JObj kvs) weight_dir) finish_load)"
    unfolding eq by (simp add: io_bind_known)
  obtain tr' where first: "fst (load_hf_model io env (JObj kvs) weight_dir) = Call_AutoConfig weight_dir # tr'"
    using load_hf_model_first by blast
  have "\<exists>tr. fst (load_model io env weight_dir) =
      Call_json_load (path_join weight_dir ''config.json'') # Call_AutoConfig weight_dir # tr"
    unfolding tr by (simp add: fst_io_bind first)
  moreover have "list_all (\<lambda>ev. \<not> is_bin_call ev) (fst (load_model io env weight_dir))"
    unfolding tr
    by (simp add: trace_io_bind load_hf_model_trace fst_finish_load)
  ultimately show ?thesis using True eq by (simp only: if_True simp_thms)
next
  case False
  then have hf: "py_contains ''text_config'' (JObj kvs) = Inr False"
    by (simp add: py_contains_def)
  have eq: "load_model io env weight_dir =
      io_bind ([Call_json_load (path_join weight_dir ''config.json'')], Inr (JObj kvs))
        (\<lambda>config. io_bind (load_bin_model io env config weight_dir) finish_load)"
    using load_model_after_config[OF cfg hf] by simp
  have tr: "fst (load_model io env weight_dir) =
      Call_json_load (path_join weight_dir ''config.json'') #
      fst (io_bind (load_bin_model io env (JObj kvs) weight_dir) finish_load)"
    unfolding eq by (simp add: io_bind_known)
  have "list_all (\<lambda>ev. \<not> is_hf_call ev) (fst (load_model io env weight_dir))"
    unfolding tr
    by (simp add: trace_io_bind load_bin_model_trace fst_finish_load)
  then show ?thesis using False eq by (simp only: if_False simp_thms)
qed

theorem load_model_strategy_witness:
  "json_load demo_io (path_join ''hf'' ''config.json'') =
     Inr (JObj [(''model_type'', JStr ''llava''), (''text_config'', JObj [])]) \<and>
   fst (load_model demo_io demo_env ''hf'') =
     [Call_json_load ''hf/config.json'', Call_AutoConfig ''hf'', Call_AutoProcessor ''hf'',
      Call_LlavaForConditionalGeneration ''hf'', Call_listdir ''hf'',
      Call_safe_open ''hf/model.safetensors''] \<and>
   list_all (\<lambda>ev. \<not> is_bin_call ev) (fst (load_model demo_io demo_env ''hf'')) \<and>
   json_load demo_io (path_join ''bin'' ''config.json'') =
     Inr (JObj [(''mm_vision_tower'', JStr ''./clip'')]) \<and>
   fst (load_model demo_io demo_env ''bin'') =
     [Call_json_load ''bin/config.json'', Call_CLIPImageProcessor ''bin/./clip'',
      Call_CLIPVisionModel ''bin/./clip'', Call_listdir ''bin'',
      Call_torch_load ''bin/mm_projector.bin''] \<and>
   list_all (\<lambda>ev. \<not> is_hf_call ev) (fst (load_model demo_io demo_env ''bin''))"
proof -
  have cfg_hf: "json_load demo_io (path_join ''hf'' ''config.json'') =
     Inr (JObj [(''model_type'', JStr ''llava''), (''text_config'', JObj [])])"
    by code_simp
  have cfg_bin: "json_load demo_io (path_join ''bin'' ''config.json'') =
     Inr (JObj [(''mm_vision_tower'', JStr ''./clip'')])"
    by code_simp
  have key_hf: "''text_config'' \<in> set (map fst [(''model_type'', JStr ''llava''), (''text_config'', JObj [])])"
    by simp
  have key_bin: "''text_config'' \<notin> set (map fst [(''mm_vision_tower'', JStr ''./clip'')])"
    by simp
  have tr_hf: "fst (load_model demo_io demo_env ''hf'') =
     [Call_json_load ''hf/config.json'', Call_AutoConfig ''hf'', Call_AutoProcessor ''hf'',
      Call_LlavaForConditionalGeneration ''hf'', Call_listdir ''hf'',
      Call_safe_open ''hf/model.safetensors'']"
    by code_simp
  have tr_bin: "fst (load_model demo_io demo_env ''bin'') =
     [Call_json_load ''bin/config.json'', Call_CLIPImageProcessor ''bin/./clip'',
      Call_CLIPVisionModel ''bin/./clip'', Call_listdir ''bin'',
      Call_torch_load ''bin/mm_projector.bin'']"
    by code_simp
  note hf = load_model_strategy[OF cfg_hf, of demo_env, unfolded if_P[OF key_hf]]
  note bin = load_model_strategy[OF cfg_bin, of demo_env, unfolded if_not_P[OF key_bin]]
  have "list_all (\<lambda>ev. \<not> is_bin_call ev) (fst (load_model demo_io demo_env ''hf''))"
    by (rule hf[THEN conjunct2, THEN conjunct2])
  moreover
  have "list_all (\<lambda>ev. \<not> is_hf_call ev) (fst (load_model demo_io demo_env ''bin''))"
    by (rule bin[THEN conjunct2])
  ultimately show ?thesis using cfg_hf cfg_bin tr_hf tr_bin by (simp only: simp_thms)
qed

lemma finish_load_missing:
  assumes "\<not> set canonical_keys
       \<subseteq> fst ` set (projector_weights st)"
  shows "snd (finish_load st) = Inl AssertionError"
  using assms
  by (auto simp: finish_load_def canonical_keys_def Let_def io_raise_def io_ret_def)

lemma finish_load_present:
  assumes "set canonical_keys
       \<subseteq> fst ` set (projector_weights st)"
  shows "snd (finish_load st) =
     Inr (st\<lparr>vision_tower := (vision_tower st)\<lparr>requires_grad := False\<rparr>, device := Some CPU\<rparr>)"
  using assms
  by (auto simp: finish_load_def canonical_keys_def Let_def io_raise_def io_ret_def)

text \<open>
  C4. Once the configuration is read and the chosen strategy has returned an adapter:
  \<open>load_model\<close> returns (with the projector weights the strategy collected) when all
  four canonical keys are among them, and ends in an \<open>AssertionError\<close>, with no
  adapter to call \<open>encode\<close> on, when one is missing. Whenever \<open>load_model\<close> returns,
  the four keys are there.
\<close>

theorem load_model_projector_keys:
  assumes cfg: "json_load io (path_join weight_dir ''config.json'') = Inr config"
    and hf: "py_contains ''text_config'' config = Inr hf"
    and strat: "snd (if hf then load_hf_model io env config weight_dir
                     else load_bin_model io env config weight_dir) = Inr st0"
  shows "(if set canonical_keys
              \<subseteq> fst ` set (projector_weights st0)
          then \<exists>st. snd (load_model io env weight_dir) = Inr st \<and>
                 projector_weights st = projector_weights st0
          else snd (load_model io env weight_dir) = Inl AssertionError) \<and>
         (\<forall>st. snd (load_model io env weight_dir) = Inr st \<longrightarrow>
            set canonical_keys
              \<subseteq> fst ` set (projector_weights st))"
proof -
  have "snd (load_model io env weight_dir) = snd (finish_load st0)"
    unfolding load_model_after_config[OF cfg hf] io_bind_known
    using strat by (simp add: snd_io_bind_known)
  moreover have "\<forall>st. snd (load_model io env weight_dir) = Inr st \<longrightarrow>
            set canonical_keys
              \<subseteq> fst ` set (projector_weights st)"
    using load_model_Inr finish_load_Inr by blast
  moreover have "snd (finish_load st0) = Inl AssertionError"
    if "\<not> set canonical_keys \<subseteq> fst ` set (projector_weights st0)"
    using that by (rule finish_load_missing)
  moreover have "\<exists>st. snd (finish_load st0) = Inr st \<and> projector_weights st = projector_weights st0"
    if "set canonical_keys \<subseteq> fst ` set (projector_weights st0)"
    using finish_load_present[OF that] by simp
  ultimately show ?thesis
    by (cases "set canonical_keys \<subseteq> fst ` set (projector_weights st0)") (simp_all only: if_True if_False simp_thms)
qed

theorem load_model_projector_keys_witness:
  "json_load demo_io (path_join ''cut'' ''config.json'') = Inr (JObj []) \<and>
   py_contains ''text_config'' (JObj []) = Inr False \<and>
   snd (load_bin_model demo_io demo_env (JObj []) ''cut'') = Inr demo_cut_loaded \<and>
   \<not> set canonical_keys \<subseteq> fst ` set (projector_weights demo_cut_loaded) \<and>
   snd (load_model demo_io demo_env ''cut'') = Inl AssertionError"
proof -
  have cfg: "json_load demo_io (path_join ''cut'' ''config.json'') = Inr (JObj [])"
    by code_simp
  have hf: "py_contains ''text_config'' (JObj []) = Inr False"
    by code_simp
  have run: "snd (load_bin_model demo_io demo_env (JObj []) ''cut'') = Inr demo_cut_loaded"
    by code_simp
  then have strat: "snd (if False then load_hf_model demo_io demo_env (JObj []) ''cut''
                    else load_bin_model demo_io demo_env (JObj []) ''cut'') = Inr demo_cut_loaded"
    by (simp only: if_False)
  have missing: "\<not> set canonical_keys \<subseteq> fst ` set (projector_weights demo_cut_loaded)"
    by code_simp
  from load_model_projector_keys[OF cfg hf strat] missing
  have "snd (load_model demo_io demo_env ''cut'') = Inl AssertionError"
    by (simp only: if_False simp_thms)
  with cfg hf run missing show ?thesis by (simp only: simp_thms)
qed

end
